theory Spec2Isabelle
  imports Complex_Main
begin

section \<open>The Twitter/X retrieval client (twitter\_retrieval.py)\<close>

text \<open>
  A shallow embedding of class \<open>TwitterRetrieval\<close>: the token exchange
  (\<open>get_bearer_token\<close>), the search with its retry loop (\<open>search_tweets\<close>) and the
  response processing (\<open>_process_response\<close>, \<open>_format_timestamp\<close>).

  Conventions of the embedding.
  \<^item> A Python dictionary read with \<open>.get\<close> is a record of fields. A scalar field
    (an identifier, a text, a name, a flag, a count, a timestamp) is optional: \<open>None\<close>
    is the absent key, and a value has the JSON type of the provider's schema. A field
    that holds an array or an object (\<open>data\<close>, \<open>includes\<close>, \<open>users\<close>,
    \<open>public_metrics\<close>) is absent, JSON null, or a value of its schema type: the code
    reads a null through \<open>.get\<close> as \<open>None\<close> and then fails on it. A payload in
    which a field carries a value of any other JSON type is outside this model.
  \<^item> Python exceptions are values of type \<open>error\<close>; a method returns its outcome
    together with the updated object and the updated world, also when it raises.
  \<^item> The outside world is explicit: the clock, the log of the search requests sent, the
    number of token requests sent and the log of the calls of \<open>time.sleep\<close>. The two
    remote endpoints and the library parsers are parameters, collected in \<open>env\<close>.
  \<^item> Times are exact rationals (seconds since the epoch) where Python computes with
    floats. A naive local datetime is the reading of the local calendar clock: the
    instant plus the UTC offset in force at that instant, a parameter of the
    environment. Console output (\<open>print\<close>) is not modelled.
  \<^item> \<open>get_rate_limit_status\<close>, \<open>display_tweets\<close>, \<open>_format_number\<close> and the
    interactive \<open>main\<close> are not part of the embedding.
\<close>

subsection \<open>Data\<close>

datatype error =
    HTTPError "int option"
      \<comment> \<open>\<open>requests.exceptions.HTTPError\<close>, with the status of the attached response;
          \<open>None\<close> when raised without a response (line 218)\<close>
  | TransportError
      \<comment> \<open>any other \<open>RequestException\<close> raised by \<open>requests.get\<close> or \<open>requests.post\<close>\<close>
  | JSONDecodeError
      \<comment> \<open>\<open>response.json()\<close> on a body that is not JSON\<close>
  | ValueError
  | KeyError
  | TypeError
  | AttributeError

record 'a response =
  status_code :: int
  reset_header :: "string option"
    \<comment> \<open>\<open>response.headers.get('x-rate-limit-reset')\<close>\<close>
  body :: "'a option"
    \<comment> \<open>\<open>response.json()\<close>; \<open>None\<close> when the body does not parse\<close>

datatype 'a outcome = ConnectionFailed | Responded "'a response"

record token_data =
  access_token :: "string option"

record raw_user =
  user_id :: "string option"
  user_name :: "string option"
  user_username :: "string option"
  user_verified :: "bool option"

record raw_metrics =
  impression_count :: "int option"
  like_count :: "int option"
  retweet_count :: "int option"
  reply_count :: "int option"

text \<open>A key whose value is an array or an object: absent, JSON null, or the value.\<close>

datatype 'a field = Absent | Null | Value 'a

record raw_tweet =
  tweet_id :: "string option"
  tweet_text :: "string option"
  author_id :: "string option"
  created_at :: "string option"
  metrics_field :: "raw_metrics field"

record raw_includes =
  users_field :: "raw_user list field"

record payload =
  data_field :: "raw_tweet list field"
  includes_field :: "raw_includes field"

text \<open>The array or object under a key, when the key holds one.\<close>

definition value_of :: "'a field \<Rightarrow> 'a option" where
  "value_of f = (case f of Value v \<Rightarrow> Some v | _ \<Rightarrow> None)"

definition public_metrics :: "raw_tweet \<Rightarrow> raw_metrics option" where
  "public_metrics tweet = value_of (metrics_field tweet)"

definition data :: "payload \<Rightarrow> raw_tweet list option" where
  "data p = value_of (data_field p)"

text \<open>The dictionary built for each tweet by \<open>_process_response\<close> (lines 247--259).\<close>

record formatted_tweet =
  ft_id :: "string option"
  ft_text :: "string option"
  author :: string
  username :: string
  verified :: bool
  timestamp :: string
  views :: int
  likes :: int
  retweets :: int
  replies :: int
  url :: string

text \<open>The dictionary returned by \<open>search_tweets\<close>.\<close>

record search_result =
  tweets :: "formatted_tweet list"
  totalResults :: nat
  query :: string

text \<open>The search request: URL, Authorization header and the \<open>params\<close> of lines 137--143.\<close>

record request =
  req_url :: string
  req_authorization :: string
  p_query :: string
  p_max_results :: int
  p_tweet_fields :: string
  p_user_fields :: string
  p_expansions :: string

text \<open>The object: the attributes set by \<open>__init__\<close>.\<close>

record twitter =
  api_key :: string
  api_secret :: string
  bearer_token :: "string option"
  rate_limit_wait :: int
  last_request_time :: "rat option"
  min_request_interval :: rat

record world =
  clock :: rat
  gets :: "request list"
  token_requests :: nat
  sleeps :: "rat list"

text \<open>
  What \<open>datetime.fromisoformat\<close> returns: an aware datetime, given by its instant, or
  a naive one, given by its calendar reading.
\<close>

datatype parsed_datetime = Aware rat | Naive rat

text \<open>
  The environment. The \<open>n\<close>-th call of an endpoint (counted from 0) takes some time and
  has an outcome; the search endpoint also sees the request. \<open>reset_epoch s\<close> is the
  integer \<open>int(s)\<close>, \<open>None\<close> when \<open>int\<close> or the following
  \<open>datetime.fromtimestamp\<close> raises; \<open>fromisoformat\<close> is
  \<open>datetime.fromisoformat\<close>, \<open>None\<close> when it raises; \<open>utc_offset t\<close> is the offset
  of the local time zone from UTC, in seconds, in force at the instant \<open>t\<close>.
\<close>

record env =
  token_endpoint :: "nat \<Rightarrow> rat \<times> token_data outcome"
  search_endpoint :: "nat \<Rightarrow> request \<Rightarrow> rat \<times> payload outcome"
  reset_epoch :: "string \<Rightarrow> int option"
  fromisoformat :: "string \<Rightarrow> parsed_datetime option"
  utc_offset :: "rat \<Rightarrow> rat"

text \<open>
  The naive local datetime at an instant (\<open>datetime.now()\<close>,
  \<open>datetime.fromtimestamp(t)\<close>), as seconds on the local calendar.
\<close>

definition local_time :: "env \<Rightarrow> rat \<Rightarrow> rat" where
  "local_time e t = t + utc_offset e t"

subsection \<open>Python helpers\<close>

text \<open>\<open>str(x)\<close> inside an f-string, for a value that is a string or \<open>None\<close>.\<close>

definition py_str :: "string option \<Rightarrow> string" where
  "py_str x = (case x of None \<Rightarrow> ''None'' | Some s \<Rightarrow> s)"

text \<open>\<open>d.get(key, default)\<close> on an optional field.\<close>

definition get_default :: "'a option \<Rightarrow> 'a \<Rightarrow> 'a" where
  "get_default x d = (case x of None \<Rightarrow> d | Some v \<Rightarrow> v)"

text \<open>\<open>int(x)\<close> on a float: truncation towards zero.\<close>

definition py_int_of :: "rat \<Rightarrow> int" where
  "py_int_of x = (if 0 \<le> x then \<lfloor>x\<rfloor> else \<lceil>x\<rceil>)"

definition digit_char :: "nat \<Rightarrow> char" where
  "digit_char d = char_of (of_char (CHR ''0'') + d)"

function str_nat :: "nat \<Rightarrow> string" where
  "str_nat n = (if n < 10 then [digit_char n] else str_nat (n div 10) @ [digit_char (n mod 10)])"
  by pat_completeness auto
termination
  by (relation "measure (\<lambda>n. n)") auto

definition str_int :: "int \<Rightarrow> string" where
  "str_int i = (if i < 0 then CHR ''-'' # str_nat (nat (- i)) else str_nat (nat i))"

text \<open>\<open>response.raise_for_status()\<close> raises for the statuses 400 to 599.\<close>

definition raises_for_status :: "int \<Rightarrow> bool" where
  "raises_for_status s = (400 \<le> s \<and> s < 600)"

text \<open>\<open>time.sleep(secs)\<close>: a negative argument raises \<open>ValueError\<close>.\<close>

definition sleep :: "rat \<Rightarrow> world \<Rightarrow> error + world" where
  "sleep secs w =
     (if secs < 0 then Inl ValueError
      else Inr (w\<lparr>sleeps := sleeps w @ [secs], clock := clock w + secs\<rparr>))"

subsection \<open>\<open>__init__\<close> and \<open>get_bearer_token\<close>\<close>

text \<open>
  \<open>__init__\<close> (lines 25--40), with the two environment variables as arguments
  (\<open>None\<close> when unset; an empty value is falsy as well).
\<close>

definition init :: "string option \<Rightarrow> string option \<Rightarrow> int \<Rightarrow> error + twitter" where
  "init key secret wait =
     (case (key, secret) of
        (Some k, Some s) \<Rightarrow>
          if k = [] \<or> s = [] then Inl ValueError
          else Inr \<lparr>api_key = k, api_secret = s, bearer_token = None,
                    rate_limit_wait = wait, last_request_time = None,
                    min_request_interval = 1\<rparr>
      | _ \<Rightarrow> Inl ValueError)"

text \<open>
  \<open>get_bearer_token\<close> (lines 42--75): one POST to the token endpoint, whatever
  \<open>self.bearer_token\<close> holds; on success the attribute is overwritten and returned.
\<close>

definition get_bearer_token ::
  "env \<Rightarrow> twitter \<Rightarrow> world \<Rightarrow> (error + string option) \<times> twitter \<times> world" where
  "get_bearer_token e self w =
     (let (d, out) = token_endpoint e (token_requests w);
          w1 = w\<lparr>token_requests := token_requests w + 1, clock := clock w + d\<rparr>
      in case out of
           ConnectionFailed \<Rightarrow> (Inl TransportError, self, w1)
         | Responded response \<Rightarrow>
             if raises_for_status (status_code response)
             then (Inl (HTTPError (Some (status_code response))), self, w1)
             else (case body response of
                     None \<Rightarrow> (Inl JSONDecodeError, self, w1)
                   | Some token_data \<Rightarrow>
                       let self1 = self\<lparr>bearer_token := access_token token_data\<rparr>
                       in (Inr (bearer_token self1), self1, w1)))"

subsection \<open>\<open>_format_timestamp\<close> and \<open>_process_response\<close>\<close>

definition replace_Z :: "string \<Rightarrow> string" where
  "replace_Z s = concat (map (\<lambda>c. if c = CHR ''Z'' then ''+00:00'' else [c]) s)"

text \<open>
  \<open>_format_timestamp\<close> (lines 265--294). The body after the first test runs under
  \<open>except Exception\<close>, so a string that does not parse is returned as it is.
  \<open>datetime.now(dt.tzinfo)\<close> is aware when \<open>dt\<close> is, and the naive local datetime
  otherwise.
\<close>

definition format_timestamp :: "env \<Rightarrow> rat \<Rightarrow> string option \<Rightarrow> string" where
  "format_timestamp e now timestamp_str =
     (case timestamp_str of
        None \<Rightarrow> ''Unknown''
      | Some s \<Rightarrow>
          if s = [] then ''Unknown''
          else (case fromisoformat e (replace_Z s) of
                  None \<Rightarrow> s
                | Some dt \<Rightarrow>
                    let seconds = (case dt of
                                     Aware t \<Rightarrow> now - t
                                   | Naive t \<Rightarrow> local_time e now - t)
                    in if seconds < 60 then str_int (py_int_of seconds) @ ''s ago''
                       else if seconds < 3600 then str_int (py_int_of (seconds / 60)) @ ''m ago''
                       else if seconds < 86400 then str_int (py_int_of (seconds / 3600)) @ ''h ago''
                       else str_int (py_int_of (seconds / 86400)) @ ''d ago''))"

text \<open>
  The first loop of \<open>_process_response\<close> (lines 234--237): \<open>user['id']\<close> is a
  subscript, so a user record without \<open>id\<close> raises \<open>KeyError\<close>; a later record with
  the same id overwrites an earlier one.
\<close>

fun build_users_dict ::
  "(string \<rightharpoonup> raw_user) \<Rightarrow> raw_user list \<Rightarrow> error + (string \<rightharpoonup> raw_user)" where
  "build_users_dict users_dict [] = Inr users_dict"
| "build_users_dict users_dict (user # rest) =
     (case user_id user of
        None \<Rightarrow> Inl KeyError
      | Some uid \<Rightarrow> build_users_dict (users_dict(uid \<mapsto> user)) rest)"

text \<open>\<open>users_dict.get(author_id, {})\<close>: \<open>None\<close> stands for the empty dictionary.\<close>

definition lookup_author :: "(string \<rightharpoonup> raw_user) \<Rightarrow> string option \<Rightarrow> raw_user option" where
  "lookup_author users_dict aid = (case aid of None \<Rightarrow> None | Some a \<Rightarrow> users_dict a)"

definition author_field :: "raw_user option \<Rightarrow> (raw_user \<Rightarrow> 'a option) \<Rightarrow> 'a \<Rightarrow> 'a" where
  "author_field author_data field d =
     (case author_data of None \<Rightarrow> d | Some u \<Rightarrow> get_default (field u) d)"

definition metric :: "raw_metrics option \<Rightarrow> (raw_metrics \<Rightarrow> int option) \<Rightarrow> int" where
  "metric metrics field = (case metrics of None \<Rightarrow> 0 | Some m \<Rightarrow> get_default (field m) 0)"

text \<open>
  The dictionary built in the body of the second loop (lines 247--259), for a tweet
  whose \<open>public_metrics\<close> is not null.
\<close>

definition format_record ::
  "env \<Rightarrow> rat \<Rightarrow> (string \<rightharpoonup> raw_user) \<Rightarrow> raw_tweet \<Rightarrow> formatted_tweet" where
  "format_record e now users_dict tweet =
     (let author_data = lookup_author users_dict (author_id tweet);
          metrics = public_metrics tweet
      in \<lparr>ft_id = tweet_id tweet,
          ft_text = tweet_text tweet,
          author = author_field author_data user_name ''Unknown'',
          username = ''@'' @ author_field author_data user_username ''unknown'',
          verified = author_field author_data user_verified False,
          timestamp = format_timestamp e now (created_at tweet),
          views = metric metrics impression_count,
          likes = metric metrics like_count,
          retweets = metric metrics retweet_count,
          replies = metric metrics reply_count,
          url = ''https://twitter.com/'' @ author_field author_data user_username ''i''
                  @ ''/status/'' @ py_str (tweet_id tweet)\<rparr>)"

text \<open>
  The body of the second loop (lines 242--261). \<open>tweet.get('public_metrics', {})\<close>
  is \<open>None\<close> when the key holds null, and \<open>metrics.get\<close> at line 254 then raises
  \<open>AttributeError\<close>.
\<close>

definition format_tweet ::
  "env \<Rightarrow> rat \<Rightarrow> (string \<rightharpoonup> raw_user) \<Rightarrow> raw_tweet \<Rightarrow> error + formatted_tweet" where
  "format_tweet e now users_dict tweet =
     (if metrics_field tweet = Null then Inl AttributeError
      else Inr (format_record e now users_dict tweet))"

text \<open>The second loop: it stops at the first tweet that raises.\<close>

fun format_tweets ::
  "env \<Rightarrow> rat \<Rightarrow> (string \<rightharpoonup> raw_user) \<Rightarrow> raw_tweet list
     \<Rightarrow> error + formatted_tweet list" where
  "format_tweets e now users_dict [] = Inr []"
| "format_tweets e now users_dict (tweet # rest) =
     (case format_tweet e now users_dict tweet of
        Inl err \<Rightarrow> Inl err
      | Inr formatted_tweet \<Rightarrow>
          (case format_tweets e now users_dict rest of
             Inl err \<Rightarrow> Inl err
           | Inr formatted_rest \<Rightarrow> Inr (formatted_tweet # formatted_rest)))"

text \<open>
  The included users, when \<open>includes\<close> and \<open>users\<close> both hold a value; the test of
  line 235 and the first loop. A null \<open>includes\<close> raises \<open>TypeError\<close> in
  \<open>'users' in data['includes']\<close>, a null \<open>users\<close> in the \<open>for\<close> statement.
\<close>

definition included_users :: "payload \<Rightarrow> raw_user list" where
  "included_users p =
     (case includes_field p of
        Value i \<Rightarrow> (case users_field i of Value us \<Rightarrow> us | _ \<Rightarrow> [])
      | _ \<Rightarrow> [])"

definition users_of :: "payload \<Rightarrow> error + (string \<rightharpoonup> raw_user)" where
  "users_of p =
     (case includes_field p of
        Absent \<Rightarrow> Inr Map.empty
      | Null \<Rightarrow> Inl TypeError
      | Value i \<Rightarrow>
          (case users_field i of
             Absent \<Rightarrow> Inr Map.empty
           | Null \<Rightarrow> Inl TypeError
           | Value us \<Rightarrow> build_users_dict Map.empty us))"

text \<open>
  \<open>_process_response\<close> (lines 220--263). A null \<open>data\<close> raises \<open>TypeError\<close> in
  the second \<open>for\<close> statement.
\<close>

definition process_response :: "env \<Rightarrow> rat \<Rightarrow> payload \<Rightarrow> error + formatted_tweet list" where
  "process_response e now p =
     (case users_of p of
        Inl err \<Rightarrow> Inl err
      | Inr users_dict \<Rightarrow>
          (case data_field p of
             Absent \<Rightarrow> Inr []
           | Null \<Rightarrow> Inl TypeError
           | Value ts \<Rightarrow> format_tweets e now users_dict ts))"

subsection \<open>\<open>search_tweets\<close>\<close>

text \<open>
  \<open>list.sort(key=..., reverse=True)\<close> (line 191): CPython reverses the list, sorts it
  with a stable ascending sort and reverses the result.
\<close>

definition sort_by_views :: "formatted_tweet list \<Rightarrow> formatted_tweet list" where
  "sort_by_views ts = rev (sort_key views (rev ts))"

text \<open>Headers and \<open>params\<close> of the search request (lines 130--143).\<close>

definition search_params :: "twitter \<Rightarrow> string \<Rightarrow> int \<Rightarrow> request" where
  "search_params self qry max_results =
     \<lparr>req_url = ''https://api.twitter.com/2/tweets/search/recent'',
      req_authorization = ''Bearer '' @ py_str (bearer_token self),
      p_query = qry,
      p_max_results = min (max max_results 10) 100,
      p_tweet_fields = ''created_at,public_metrics,author_id'',
      p_user_fields = ''name,username,verified'',
      p_expansions = ''author_id''\<rparr>"

text \<open>\<open>requests.get(url, headers=headers, params=params)\<close> (line 149).\<close>

definition http_get :: "env \<Rightarrow> request \<Rightarrow> world \<Rightarrow> payload outcome \<times> world" where
  "http_get e rq w =
     (let (d, out) = search_endpoint e (length (gets w)) rq
      in (out, w\<lparr>gets := gets w @ [rq], clock := clock w + d\<rparr>))"

text \<open>
  The wait after a 429 answer (lines 161--168). A header that is present and not empty
  is converted; the conversion may raise. \<open>wait_until\<close> and \<open>datetime.now()\<close> are
  naive local datetimes, and line 165 subtracts their calendar readings.
\<close>

definition wait_seconds :: "env \<Rightarrow> twitter \<Rightarrow> int \<Rightarrow> string option \<Rightarrow> rat \<Rightarrow> error + rat" where
  "wait_seconds e self retry_count reset_time now =
     (let fallback = Inr (of_int (rate_limit_wait self * retry_count))
      in case reset_time of
           None \<Rightarrow> fallback
         | Some s \<Rightarrow>
             if s = [] then fallback
             else (case reset_epoch e s of
                     None \<Rightarrow> Inl ValueError
                   | Some reset \<Rightarrow>
                       let wait_until = local_time e (of_int reset);
                           until_reset = wait_until - local_time e now
                       in Inr (max until_reset (of_int (rate_limit_wait self)))))"

text \<open>
  Lines 176--198: the answer is read, an answer without tweets (\<open>data\<close> absent, null
  or empty) gives the empty result, otherwise the tweets are processed and sorted.
\<close>

definition handle_payload :: "env \<Rightarrow> rat \<Rightarrow> string \<Rightarrow> payload \<Rightarrow> error + search_result" where
  "handle_payload e now qry p =
     (if data p = None \<or> data p = Some []
      then Inr \<lparr>tweets = [], totalResults = 0, query = qry\<rparr>
      else (case process_response e now p of
              Inl err \<Rightarrow> Inl err
            | Inr processed_tweets \<Rightarrow>
                let sorted_tweets = sort_by_views processed_tweets
                in Inr \<lparr>tweets = sorted_tweets, totalResults = length sorted_tweets,
                        query = qry\<rparr>))"

text \<open>
  The retry loop (lines 145--218). The \<open>HTTPError\<close> raised at line 156 carries the 429
  response, is caught at line 200 and continues the loop, whose condition then fails:
  the error that reaches the caller is the one of line 218.
\<close>

function search_loop ::
  "env \<Rightarrow> request \<Rightarrow> string \<Rightarrow> int \<Rightarrow> int \<Rightarrow> twitter \<Rightarrow> world
     \<Rightarrow> (error + search_result) \<times> twitter \<times> world" where
  "search_loop e params qry max_retries retry_count self w =
     (if retry_count \<le> max_retries then
        (case http_get e params w of
           (ConnectionFailed, w1) \<Rightarrow> (Inl TransportError, self, w1)
         | (Responded response, w1) \<Rightarrow>
             let self1 = self\<lparr>last_request_time := Some (clock w1)\<rparr>
             in if status_code response = 429 then
                  if retry_count + 1 > max_retries
                  then search_loop e params qry max_retries (retry_count + 1) self1 w1
                  else (case wait_seconds e self1 (retry_count + 1) (reset_header response)
                               (clock w1) of
                          Inl err \<Rightarrow> (Inl err, self1, w1)
                        | Inr secs \<Rightarrow>
                            (case sleep secs w1 of
                               Inl err \<Rightarrow> (Inl err, self1, w1)
                             | Inr w2 \<Rightarrow>
                                 search_loop e params qry max_retries (retry_count + 1) self1 w2))
                else if raises_for_status (status_code response)
                then (Inl (HTTPError (Some (status_code response))), self1, w1)
                else (case body response of
                        None \<Rightarrow> (Inl JSONDecodeError, self1, w1)
                      | Some p \<Rightarrow> (handle_payload e (clock w1) qry p, self1, w1)))
      else (Inl (HTTPError None), self, w))"
  by pat_completeness auto
termination
  by (relation "measure (\<lambda>(e, params, qry, max_retries, retry_count, self, w).
                           nat (max_retries + 1 - retry_count))") auto

text \<open>The wait between requests at the start of \<open>search_tweets\<close> (lines 122--127).\<close>

definition rate_gate :: "twitter \<Rightarrow> world \<Rightarrow> error + world" where
  "rate_gate self w =
     (case last_request_time self of
        None \<Rightarrow> Inr w
      | Some t \<Rightarrow>
          if t = 0 then Inr w
          else let elapsed = clock w - t
               in if elapsed < min_request_interval self
                  then sleep (min_request_interval self - elapsed) w
                  else Inr w)"

text \<open>
  The token step (lines 117--119), also the first step of \<open>get_rate_limit_status\<close>:
  the token is fetched when the attribute is \<open>None\<close> or empty.
\<close>

definition ensure_token :: "env \<Rightarrow> twitter \<Rightarrow> world \<Rightarrow> (error + string option) \<times> twitter \<times> world" where
  "ensure_token e self w =
     (if bearer_token self = None \<or> bearer_token self = Some []
      then get_bearer_token e self w
      else (Inr (bearer_token self), self, w))"

text \<open>
  \<open>search_tweets\<close> (lines 104--218): the token step, the wait between requests, then
  the loop with \<open>retry_count = 0\<close>.
\<close>

definition search_tweets ::
  "env \<Rightarrow> string \<Rightarrow> int \<Rightarrow> int \<Rightarrow> twitter \<Rightarrow> world
     \<Rightarrow> (error + search_result) \<times> twitter \<times> world" where
  "search_tweets e qry max_results max_retries self w =
     (case ensure_token e self w of
        (Inl err, self1, w1) \<Rightarrow> (Inl err, self1, w1)
      | (Inr _, self1, w1) \<Rightarrow>
          (case rate_gate self1 w1 of
             Inl err \<Rightarrow> (Inl err, self1, w1)
           | Inr w2 \<Rightarrow>
               search_loop e (search_params self1 qry max_results) qry max_retries 0 self1 w2))"

subsection \<open>The answer that decides a call\<close>

text \<open>
  The outcome of the last search request on the log, and how \<open>search_tweets\<close> reads
  it (lines 153--198). After a 429 answer every exit of the loop is an error.
\<close>

definition last_answer :: "env \<Rightarrow> world \<Rightarrow> payload outcome option" where
  "last_answer e w =
     (if gets w = [] then None
      else Some (snd (search_endpoint e (length (gets w) - 1) (last (gets w)))))"

definition decided_by :: "env \<Rightarrow> string \<Rightarrow> rat \<Rightarrow> payload outcome \<Rightarrow> (error + search_result) \<Rightarrow> bool" where
  "decided_by e qry now out res =
     (case out of
        ConnectionFailed \<Rightarrow> res = Inl TransportError
      | Responded response \<Rightarrow>
          if status_code response = 429 then isl res
          else if raises_for_status (status_code response)
          then res = Inl (HTTPError (Some (status_code response)))
          else (case body response of
                  None \<Rightarrow> res = Inl JSONDecodeError
                | Some p \<Rightarrow> res = handle_payload e now qry p))"

text \<open>
  A reset header that the wait computation accepts: absent, empty, or one that
  \<open>reset_epoch\<close> converts.
\<close>

definition reset_header_ok :: "env \<Rightarrow> string option \<Rightarrow> bool" where
  "reset_header_ok e h =
     (case h of None \<Rightarrow> True | Some s \<Rightarrow> s = [] \<or> reset_epoch e s \<noteq> None)"

subsection \<open>Tweets without author record, metrics without a count\<close>

text \<open>
  The tweets of a payload (none when \<open>data\<close> is absent); a tweet whose \<open>author_id\<close>
  is absent or is the id of no included user; a tweet that lacks a count, the whole
  \<open>public_metrics\<close> dictionary being absent or the one key.
\<close>

definition raw_tweets :: "payload \<Rightarrow> raw_tweet list" where
  "raw_tweets p = get_default (data p) []"

definition no_author :: "payload \<Rightarrow> raw_tweet \<Rightarrow> bool" where
  "no_author p tweet =
     (case author_id tweet of
        None \<Rightarrow> True
      | Some a \<Rightarrow> Some a \<notin> set (map user_id (included_users p)))"



subsection \<open>Concrete objects, worlds and providers\<close>

text \<open>
  An object that holds a token, a fresh world, and a provider that answers the first
  \<open>k\<close> searches with status 429 (no reset header) and every later one with status 200
  and an empty \<open>data\<close> array.
\<close>

definition demo_self :: twitter where
  "demo_self = \<lparr>api_key = ''key'', api_secret = ''secret'', bearer_token = Some ''tok'',
                 rate_limit_wait = 30, last_request_time = None, min_request_interval = 1\<rparr>"

definition demo_world :: world where
  "demo_world = \<lparr>clock = 1000, gets = [], token_requests = 0, sleeps = []\<rparr>"

definition empty_payload :: payload where
  "empty_payload = \<lparr>data_field = Value [], includes_field = Absent\<rparr>"

definition answer :: "int \<Rightarrow> string option \<Rightarrow> payload option \<Rightarrow> rat \<times> payload outcome" where
  "answer st hdr p = (1 / 2, Responded \<lparr>status_code = st, reset_header = hdr, body = p\<rparr>)"

definition limited_env :: "nat \<Rightarrow> env" where
  "limited_env k =
     \<lparr>token_endpoint = (\<lambda>n. (1 / 4, Responded \<lparr>status_code = 200, reset_header = None,
                                  body = Some \<lparr>access_token = Some ''fresh''\<rparr>\<rparr>)),
      search_endpoint = (\<lambda>n rq. if n < k then answer 429 None None
                                 else answer 200 None (Some empty_payload)),
      reset_epoch = (\<lambda>s. None),
      fromisoformat = (\<lambda>s. None),
      utc_offset = (\<lambda>t. 0)\<rparr>"

text \<open>
  A provider that answers with three tweets, of 50, 200 and 50 views in this order; only
  the author of the first is among the included users.
\<close>

definition tweet_a :: raw_tweet where
  "tweet_a = \<lparr>tweet_id = Some ''1'', tweet_text = Some ''first'', author_id = Some ''u1'',
              created_at = None,
              metrics_field = Value \<lparr>impression_count = Some 50, like_count = Some 3,
                                      retweet_count = None, reply_count = None\<rparr>\<rparr>"

definition tweet_b :: raw_tweet where
  "tweet_b = \<lparr>tweet_id = Some ''2'', tweet_text = Some ''second'', author_id = Some ''u2'',
              created_at = None,
              metrics_field = Value \<lparr>impression_count = Some 200, like_count = None,
                                      retweet_count = None, reply_count = None\<rparr>\<rparr>"

definition tweet_c :: raw_tweet where
  "tweet_c = \<lparr>tweet_id = Some ''3'', tweet_text = Some ''third'', author_id = None,
              created_at = None,
              metrics_field = Value \<lparr>impression_count = Some 50, like_count = None,
                                      retweet_count = None, reply_count = None\<rparr>\<rparr>"

definition user_1 :: raw_user where
  "user_1 = \<lparr>user_id = Some ''u1'', user_name = Some ''Ann'', user_username = Some ''ann'',
             user_verified = Some True\<rparr>"

definition tweets_payload :: payload where
  "tweets_payload = \<lparr>data_field = Value [tweet_a, tweet_b, tweet_c],
                     includes_field = Value \<lparr>users_field = Value [user_1]\<rparr>\<rparr>"

definition tweets_env :: env where
  "tweets_env =
     \<lparr>token_endpoint = (\<lambda>n. (1 / 4, ConnectionFailed)),
      search_endpoint = (\<lambda>n rq. answer 200 None (Some tweets_payload)),
      reset_epoch = (\<lambda>s. None),
      fromisoformat = (\<lambda>s. None),
      utc_offset = (\<lambda>t. 0)\<rparr>"

definition formatted_a :: formatted_tweet where
  "formatted_a = \<lparr>ft_id = Some ''1'', ft_text = Some ''first'', author = ''Ann'',
                  username = ''@ann'', verified = True, timestamp = ''Unknown'', views = 50,
                  likes = 3, retweets = 0, replies = 0,
                  url = ''https://twitter.com/ann/status/1''\<rparr>"

definition formatted_b :: formatted_tweet where
  "formatted_b = \<lparr>ft_id = Some ''2'', ft_text = Some ''second'', author = ''Unknown'',
                  username = ''@unknown'', verified = False, timestamp = ''Unknown'',
                  views = 200, likes = 0, retweets = 0, replies = 0,
                  url = ''https://twitter.com/i/status/2''\<rparr>"

definition formatted_c :: formatted_tweet where
  "formatted_c = \<lparr>ft_id = Some ''3'', ft_text = Some ''third'', author = ''Unknown'',
                  username = ''@unknown'', verified = False, timestamp = ''Unknown'',
                  views = 50, likes = 0, retweets = 0, replies = 0,
                  url = ''https://twitter.com/i/status/3''\<rparr>"

text \<open>
  An object as \<open>__init__\<close> leaves it, and a provider whose token endpoint hands out
  the token \<open>A\<close> at the first request and \<open>B\<close> at every later one.
\<close>

definition fresh_self :: twitter where
  "fresh_self = \<lparr>api_key = ''key'', api_secret = ''secret'', bearer_token = None,
                  rate_limit_wait = 30, last_request_time = None, min_request_interval = 1\<rparr>"

definition token_answer :: "string \<Rightarrow> rat \<times> token_data outcome" where
  "token_answer t = (1 / 4, Responded \<lparr>status_code = 200, reset_header = None,
                                        body = Some \<lparr>access_token = Some t\<rparr>\<rparr>)"

definition rotating_env :: env where
  "rotating_env =
     \<lparr>token_endpoint = (\<lambda>n. if n = 0 then token_answer ''A'' else token_answer ''B''),
      search_endpoint = (\<lambda>n rq. answer 200 None (Some empty_payload)),
      reset_epoch = (\<lambda>s. None),
      fromisoformat = (\<lambda>s. None),
      utc_offset = (\<lambda>t. 0)\<rparr>"

text \<open>
  New York on 1 November 2026: the UTC offset goes from \<open>-14400\<close> to \<open>-18000\<close>
  seconds at the instant 1793512800. The provider answers the first search, which
  arrives at 1793512700, with a 429 whose reset header is \<open>1793512900\<close>, and every
  later one with status 200 and no tweets.
\<close>

definition dst_env :: env where
  "dst_env =
     \<lparr>token_endpoint = (\<lambda>n. (1 / 4, ConnectionFailed)),
      search_endpoint = (\<lambda>n rq. if n = 0 then answer 429 (Some ''1793512900'') None
                                 else answer 200 None (Some empty_payload)),
      reset_epoch = (\<lambda>s. if s = ''1793512900'' then Some 1793512900 else None),
      fromisoformat = (\<lambda>s. None),
      utc_offset = (\<lambda>t. if t < 1793512800 then - 14400 else - 18000)\<rparr>"

definition dst_world :: world where
  "dst_world = \<lparr>clock = 1793512700 - 1 / 2, gets = [], token_requests = 0, sleeps = []\<rparr>"



definition tweet_neg :: raw_tweet where
  "tweet_neg = \<lparr>tweet_id = Some ''4'', tweet_text = Some ''fourth'', author_id = None,
                created_at = None,
                metrics_field = Value \<lparr>impression_count = Some (- 5), like_count = None,
                                        retweet_count = None, reply_count = None\<rparr>\<rparr>"

definition negative_payload :: payload where
  "negative_payload = \<lparr>data_field = Value [tweet_neg], includes_field = Absent\<rparr>"

definition tweet_sparse :: raw_tweet where
  "tweet_sparse = \<lparr>tweet_id = Some ''5'', tweet_text = Some ''fifth'', author_id = Some ''u9'',
                   created_at = None,
                   metrics_field = Value \<lparr>impression_count = None, like_count = Some 7,
                                           retweet_count = None, reply_count = None\<rparr>\<rparr>"

definition sparse_payload :: payload where
  "sparse_payload = \<lparr>data_field = Value [tweet_sparse], includes_field = Value \<lparr>users_field = Value [user_1]\<rparr>\<rparr>"



definition formatted_sparse :: formatted_tweet where
  "formatted_sparse = \<lparr>ft_id = Some ''5'', ft_text = Some ''fifth'', author = ''Unknown'',
                       username = ''@unknown'', verified = False, timestamp = ''Unknown'',
                       views = 0, likes = 7, retweets = 0, replies = 0,
                       url = ''https://twitter.com/i/status/5''\<rparr>"

definition formatted_neg :: formatted_tweet where
  "formatted_neg = \<lparr>ft_id = Some ''4'', ft_text = Some ''fourth'', author = ''Unknown'',
                    username = ''@unknown'', verified = False, timestamp = ''Unknown'',
                    views = - 5, likes = 0, retweets = 0, replies = 0,
                    url = ''https://twitter.com/i/status/4''\<rparr>"

section \<open>Properties\<close>

subsection \<open>The loop: one rule for all its exits\<close>

declare search_loop.simps [simp del]


lemma search_loop_rule:
  assumes run: "search_loop e params qry max_retries retry_count self w = (res, self', w')"
    and inv: "I retry_count self w"
    and retry: "\<And>rc s v response v1 secs v2.
        \<lbrakk>I rc s v; rc \<le> max_retries; http_get e params v = (Responded response, v1);
         status_code response = 429; rc + 1 \<le> max_retries;
         wait_seconds e (s\<lparr>last_request_time := Some (clock v1)\<rparr>) (rc + 1)
           (reset_header response) (clock v1) = Inr secs;
         sleep secs v1 = Inr v2\<rbrakk>
        \<Longrightarrow> I (rc + 1) (s\<lparr>last_request_time := Some (clock v1)\<rparr>) v2"
    and last: "\<And>rc s v response v1.
        \<lbrakk>I rc s v; rc \<le> max_retries; http_get e params v = (Responded response, v1);
         status_code response = 429; max_retries < rc + 1\<rbrakk>
        \<Longrightarrow> I (rc + 1) (s\<lparr>last_request_time := Some (clock v1)\<rparr>) v1"
    and exhausted: "\<And>rc s v. \<lbrakk>I rc s v; max_retries < rc\<rbrakk> \<Longrightarrow> Q (Inl (HTTPError None)) s v"
    and failed: "\<And>rc s v v1.
        \<lbrakk>I rc s v; rc \<le> max_retries; http_get e params v = (ConnectionFailed, v1)\<rbrakk>
        \<Longrightarrow> Q (Inl TransportError) s v1"
    and wait_err: "\<And>rc s v response v1 err.
        \<lbrakk>I rc s v; rc \<le> max_retries; http_get e params v = (Responded response, v1);
         status_code response = 429; rc + 1 \<le> max_retries;
         wait_seconds e (s\<lparr>last_request_time := Some (clock v1)\<rparr>) (rc + 1)
           (reset_header response) (clock v1) = Inl err\<rbrakk>
        \<Longrightarrow> Q (Inl err) (s\<lparr>last_request_time := Some (clock v1)\<rparr>) v1"
    and sleep_err: "\<And>rc s v response v1 secs err.
        \<lbrakk>I rc s v; rc \<le> max_retries; http_get e params v = (Responded response, v1);
         status_code response = 429; rc + 1 \<le> max_retries;
         wait_seconds e (s\<lparr>last_request_time := Some (clock v1)\<rparr>) (rc + 1)
           (reset_header response) (clock v1) = Inr secs;
         sleep secs v1 = Inl err\<rbrakk>
        \<Longrightarrow> Q (Inl err) (s\<lparr>last_request_time := Some (clock v1)\<rparr>) v1"
    and status_err: "\<And>rc s v response v1.
        \<lbrakk>I rc s v; rc \<le> max_retries; http_get e params v = (Responded response, v1);
         status_code response \<noteq> 429; raises_for_status (status_code response)\<rbrakk>
        \<Longrightarrow> Q (Inl (HTTPError (Some (status_code response))))
              (s\<lparr>last_request_time := Some (clock v1)\<rparr>) v1"
    and json_err: "\<And>rc s v response v1.
        \<lbrakk>I rc s v; rc \<le> max_retries; http_get e params v = (Responded response, v1);
         status_code response \<noteq> 429; \<not> raises_for_status (status_code response);
         body response = None\<rbrakk>
        \<Longrightarrow> Q (Inl JSONDecodeError) (s\<lparr>last_request_time := Some (clock v1)\<rparr>) v1"
    and answered: "\<And>rc s v response v1 p.
        \<lbrakk>I rc s v; rc \<le> max_retries; http_get e params v = (Responded response, v1);
         status_code response \<noteq> 429; \<not> raises_for_status (status_code response);
         body response = Some p\<rbrakk>
        \<Longrightarrow> Q (handle_payload e (clock v1) qry p) (s\<lparr>last_request_time := Some (clock v1)\<rparr>) v1"
  shows "Q res self' w'"
  using run inv
proof (induction n \<equiv> "nat (max_retries + 1 - retry_count)" arbitrary: retry_count self w)
  case 0
  then have "max_retries < retry_count" by simp
  with 0 exhausted [of retry_count self w] show ?case
    by (auto simp: search_loop.simps [of e params qry max_retries retry_count self w])
next
  case (Suc n)
  note unfold = search_loop.simps [of e params qry max_retries retry_count self w]
  from Suc.hyps(2) have le: "retry_count \<le> max_retries" and n: "n = nat (max_retries + 1 - (retry_count + 1))"
    by simp_all
  obtain out w1 where g: "http_get e params w = (out, w1)"
    by (cases "http_get e params w")
  let ?self1 = "self\<lparr>last_request_time := Some (clock w1)\<rparr>"
  show ?case
  proof (cases out)
    case ConnectionFailed
    with Suc.prems le g failed [of retry_count self w w1] show ?thesis
      by (auto simp: unfold)
  next
    case (Responded response)
    note g' = g [unfolded Responded]
    show ?thesis
    proof (cases "status_code response = 429")
      case True
      show ?thesis
      proof (cases "max_retries < retry_count + 1")
        case over: True
        have "I (retry_count + 1) ?self1 w1"
          using last [OF Suc.prems(2) le g' True over] .
        moreover have "search_loop e params qry max_retries (retry_count + 1) ?self1 w1 = (res, self', w')"
          using Suc.prems(1) le g' True over by (simp add: unfold)
        ultimately show ?thesis using Suc.hyps(1) [OF n] by blast
      next
        case under: False
        then have under': "retry_count + 1 \<le> max_retries" by simp
        show ?thesis
        proof (cases "wait_seconds e ?self1 (retry_count + 1) (reset_header response) (clock w1)")
          case (Inl err)
          with Suc.prems le g' True under wait_err [OF Suc.prems(2) le g' True under' Inl]
          show ?thesis by (auto simp: unfold)
        next
          case (Inr secs)
          show ?thesis
          proof (cases "sleep secs w1")
            case sl: (Inl err)
            with Suc.prems le g' True under Inr
              sleep_err [OF Suc.prems(2) le g' True under' Inr sl]
            show ?thesis by (auto simp: unfold)
          next
            case sl: (Inr w2)
            have "I (retry_count + 1) ?self1 w2"
              using retry [OF Suc.prems(2) le g' True under' Inr sl] .
            moreover have "search_loop e params qry max_retries (retry_count + 1) ?self1 w2 = (res, self', w')"
              using Suc.prems(1) le g' True under Inr sl by (simp add: unfold)
            ultimately show ?thesis using Suc.hyps(1) [OF n] by blast
          qed
        qed
      qed
    next
      case False
      show ?thesis
      proof (cases "raises_for_status (status_code response)")
        case r: True
        with Suc.prems le g' False status_err [OF Suc.prems(2) le g' False r]
        show ?thesis by (auto simp: unfold)
      next
        case r: False
        show ?thesis
        proof (cases "body response")
          case None
          with Suc.prems le g' False r json_err [OF Suc.prems(2) le g' False r None]
          show ?thesis by (auto simp: unfold)
        next
          case (Some p)
          with Suc.prems le g' False r answered [OF Suc.prems(2) le g' False r Some]
          show ?thesis by (auto simp: unfold)
        qed
      qed
    qed
  qed
qed

subsection \<open>What the steps leave unchanged\<close>

lemma http_get_world:
  "http_get e rq w = (out, w1) \<Longrightarrow>
     gets w1 = gets w @ [rq] \<and> token_requests w1 = token_requests w \<and> sleeps w1 = sleeps w
     \<and> search_endpoint e (length (gets w)) rq = (clock w1 - clock w, out)"
  by (auto simp: http_get_def split: prod.splits)

lemma sleep_world:
  "sleep secs w = Inr w2 \<Longrightarrow>
     gets w2 = gets w \<and> token_requests w2 = token_requests w \<and> sleeps w2 = sleeps w @ [secs]
     \<and> clock w2 = clock w + secs \<and> 0 \<le> secs"
  by (auto simp: sleep_def split: if_splits)

lemma rate_gate_total: "\<exists>w2. rate_gate self w = Inr w2"
  by (simp add: rate_gate_def sleep_def Let_def split: option.splits)

lemma rate_gate_world:
  "rate_gate self w = Inr w2 \<Longrightarrow> gets w2 = gets w \<and> token_requests w2 = token_requests w"
  by (auto simp: rate_gate_def Let_def dest: sleep_world split: option.splits if_splits)

lemma get_bearer_token_world:
  "get_bearer_token e self w = (r, self1, w1) \<Longrightarrow>
     gets w1 = gets w \<and> sleeps w1 = sleeps w \<and> token_requests w1 = token_requests w + 1
     \<and> rate_limit_wait self1 = rate_limit_wait self"
  by (auto simp: get_bearer_token_def Let_def
           split: prod.splits outcome.splits if_splits option.splits)

lemma ensure_token_world:
  "ensure_token e self w = (r, self1, w1) \<Longrightarrow>
     gets w1 = gets w \<and> sleeps w1 = sleeps w \<and> rate_limit_wait self1 = rate_limit_wait self"
  by (auto simp: ensure_token_def dest: get_bearer_token_world split: if_splits)

lemma ensure_token_cached:
  "bearer_token self = Some t \<Longrightarrow> t \<noteq> [] \<Longrightarrow> ensure_token e self w = (Inr (Some t), self, w)"
  by (simp add: ensure_token_def)

lemma search_loop_invariant:
  assumes run: "search_loop e params qry max_retries retry_count self w = (res, self', w')"
    and init: "I self w"
    and get: "\<And>s v out v1. \<lbrakk>I s v; http_get e params v = (out, v1)\<rbrakk>
                \<Longrightarrow> I s v1 \<and> I (s\<lparr>last_request_time := Some (clock v1)\<rparr>) v1"
    and slp: "\<And>s v secs v2. \<lbrakk>I s v; sleep secs v = Inr v2\<rbrakk> \<Longrightarrow> I s v2"
  shows "I self' w'"
  by (rule search_loop_rule [OF run, where I = "\<lambda>rc. I" and Q = "\<lambda>r. I"])
     (use init get slp in blast)+

lemma search_loop_frame:
  assumes "search_loop e params qry max_retries retry_count self w = (res, self', w')"
  shows "bearer_token self' = bearer_token self \<and> rate_limit_wait self' = rate_limit_wait self
         \<and> token_requests w' = token_requests w
         \<and> (\<exists>k. gets w' = gets w @ replicate k params)"
proof (rule search_loop_invariant [OF assms,
    where I = "\<lambda>s v. bearer_token s = bearer_token self \<and> rate_limit_wait s = rate_limit_wait self
                 \<and> token_requests v = token_requests w \<and> (\<exists>k. gets v = gets w @ replicate k params)"],
    goal_cases)
  case 1
  show ?case by (simp add: exI [of _ 0])
next
  case (2 s v out v1)
  then obtain k where "gets v = gets w @ replicate k params" by blast
  with 2 http_get_world [OF 2(2)] show ?case
    by (auto simp: replicate_append_same intro!: exI [of _ "Suc k"])
next
  case (3 s v secs v2)
  with sleep_world [OF 3(2)] show ?case by simp
qed

lemma search_tweets_cases:
  assumes "search_tweets e qry max_results max_retries self w = (res, self', w')"
  obtains (token_failed) err self1 w1 where
      "ensure_token e self w = (Inl err, self1, w1)" "res = Inl err" "self' = self1" "w' = w1"
  | (searched) tok self1 w1 w2 where
      "ensure_token e self w = (Inr tok, self1, w1)" "rate_gate self1 w1 = Inr w2"
      "search_loop e (search_params self1 qry max_results) qry max_retries 0 self1 w2
         = (res, self', w')"
proof -
  obtain r self1 w1 where et: "ensure_token e self w = (r, self1, w1)"
    by (cases "ensure_token e self w")
  obtain w2 where rg: "rate_gate self1 w1 = Inr w2"
    using rate_gate_total by blast
  show thesis
  proof (cases r)
    case (Inl err)
    with assms et show thesis by (intro token_failed [of err self1 w1]) (auto simp: search_tweets_def)
  next
    case (Inr tok)
    with assms et rg show thesis by (intro searched [of tok self1 w1 w2]) (auto simp: search_tweets_def)
  qed
qed

lemma get_bearer_token_caches:
  "get_bearer_token e self0 w0 = (Inr tok, self1, w1) \<Longrightarrow> bearer_token self1 = tok"
  by (auto simp: get_bearer_token_def Let_def
           split: prod.splits outcome.splits if_splits option.splits)

lemma search_loop_sends:
  assumes run: "search_loop e params qry max_retries retry_count self w = (res, self', w')"
    and le: "retry_count \<le> max_retries"
  shows "length (gets w) < length (gets w')"
proof -
  let ?I = "\<lambda>(rc :: int) (s :: twitter) v.
              (rc = retry_count \<and> gets v = gets w) \<or> length (gets w) < length (gets v)"
  let ?Q = "\<lambda>(res :: error + search_result) (s :: twitter) v. length (gets w) < length (gets v)"
  show ?thesis
    by (rule search_loop_rule [OF run, where I = ?I and Q = ?Q])
       (use le in \<open>auto dest!: http_get_world sleep_world\<close>)
qed

subsection \<open>The result is decided by the last answer\<close>

lemma last_answer_http_get:
  "http_get e rq w = (out, w1) \<Longrightarrow> last_answer e w1 = Some out"
  by (auto simp: last_answer_def dest!: http_get_world)

lemma last_answer_sleep:
  "sleep secs w = Inr w2 \<Longrightarrow> last_answer e w2 = last_answer e w"
  by (auto simp: last_answer_def dest!: sleep_world)

lemma search_loop_last_answer:
  assumes run: "search_loop e params qry max_retries retry_count self w = (res, self', w')"
    and sent: "gets w' \<noteq> gets w"
  shows "\<exists>out. last_answer e w' = Some out \<and> decided_by e qry (clock w') out res"
proof -
  let ?I = "\<lambda>rc s v. gets v = gets w \<or>
              (\<exists>r. last_answer e v = Some (Responded r) \<and> status_code r = 429)"
  let ?Q = "\<lambda>res s v. gets v \<noteq> gets w \<longrightarrow>
              (\<exists>out. last_answer e v = Some out \<and> decided_by e qry (clock v) out res)"
  have "?Q res self' w'"
  proof (rule search_loop_rule [OF run, where I = ?I and Q = ?Q], goal_cases)
    case 1
    show ?case by simp
  next
    case (2 rc s v response v1 secs v2)
    then show ?case by (simp add: last_answer_http_get last_answer_sleep)
  next
    case (3 rc s v response v1)
    then show ?case by (simp add: last_answer_http_get)
  next
    case (4 rc s v)
    then show ?case by (auto simp: decided_by_def)
  next
    case (5 rc s v v1)
    then show ?case by (simp add: last_answer_http_get decided_by_def)
  next
    case (6 rc s v response v1 err)
    then show ?case by (simp add: last_answer_http_get decided_by_def)
  next
    case (7 rc s v response v1 secs err)
    then show ?case by (simp add: last_answer_http_get decided_by_def)
  next
    case (8 rc s v response v1)
    then show ?case by (simp add: last_answer_http_get decided_by_def)
  next
    case (9 rc s v response v1)
    then show ?case by (simp add: last_answer_http_get decided_by_def)
  next
    case (10 rc s v response v1 p)
    then show ?case by (simp add: last_answer_http_get decided_by_def)
  qed
  with sent show ?thesis by simp
qed

lemma search_loop_Inr_sent:
  assumes run: "search_loop e params qry max_retries retry_count self w = (Inr sr, self', w')"
  shows "length (gets w) < length (gets w')"
proof -
  let ?I = "\<lambda>(rc :: int) (s :: twitter) v. length (gets w) \<le> length (gets v)"
  let ?Q = "\<lambda>(res :: error + search_result) (s :: twitter) v.
              \<not> isl res \<longrightarrow> length (gets w) < length (gets v)"
  have "?Q (Inr sr) self' w'"
    by (rule search_loop_rule [OF run, where I = ?I and Q = ?Q])
       (auto dest!: http_get_world sleep_world)
  then show ?thesis by simp
qed

lemma search_tweets_success:
  assumes "search_tweets e qry max_results max_retries self w = (Inr sr, self', w')"
  shows "length (gets w) < length (gets w') \<and>
         (\<exists>response p. last_answer e w' = Some (Responded response) \<and> body response = Some p
            \<and> handle_payload e (clock w') qry p = Inr sr)"
  using assms
proof (cases rule: search_tweets_cases)
  case (token_failed err self1 w1)
  then show ?thesis by simp
next
  case (searched tok self1 w1 w2)
  note sent = search_loop_Inr_sent [OF searched(3)]
  then have "gets w' \<noteq> gets w2" by auto
  from search_loop_last_answer [OF searched(3) this] obtain out where
    out: "last_answer e w' = Some out" "decided_by e qry (clock w') out (Inr sr)" by blast
  from out(2) have "\<exists>response p. out = Responded response \<and> body response = Some p
            \<and> handle_payload e (clock w') qry p = Inr sr"
    by (auto simp: decided_by_def split: outcome.splits if_splits option.splits)
  with out(1) sent ensure_token_world [OF searched(1)] rate_gate_world [OF searched(2)]
  show ?thesis by auto
qed

lemma handle_payload_result:
  assumes "handle_payload e now qry p = Inr sr"
  shows "totalResults sr = length (tweets sr) \<and> query sr = qry"
  using assms
  by (auto simp: handle_payload_def Let_def split: if_splits sum.splits)

lemma search_tweets_decided:
  assumes run: "search_tweets e qry max_results max_retries self w = (res, self', w')"
    and sent: "length (gets w) < length (gets w')"
  shows "\<exists>out. last_answer e w' = Some out \<and> decided_by e qry (clock w') out res"
  using run
proof (cases rule: search_tweets_cases)
  case (token_failed err self1 w1)
  with sent ensure_token_world [OF token_failed(1)] show ?thesis by simp
next
  case (searched tok self1 w1 w2)
  from sent ensure_token_world [OF searched(1)] rate_gate_world [OF searched(2)]
  have "gets w' \<noteq> gets w2" by auto
  from search_loop_last_answer [OF searched(3) this] show ?thesis .
qed

subsection \<open>A provider that keeps answering 429\<close>

lemma wait_seconds_ok:
  assumes "reset_header_ok e h" "0 \<le> rate_limit_wait self" "0 \<le> n"
  shows "\<exists>secs. wait_seconds e self n h now = Inr secs \<and> 0 \<le> secs"
  using assms
  by (auto simp: wait_seconds_def reset_header_ok_def Let_def max_def split: option.splits)

lemma sleep_ok: "0 \<le> secs \<Longrightarrow> \<exists>w2. sleep secs w = Inr w2"
  by (simp add: sleep_def)

lemma search_loop_exhausts:
  assumes "0 \<le> rc" "rc \<le> max_retries + 1" "0 \<le> rate_limit_wait self"
    and "\<forall>i < nat (max_retries + 1 - rc). \<exists>d r.
            search_endpoint e (length (gets w) + i) params = (d, Responded r)
            \<and> status_code r = 429 \<and> reset_header_ok e (reset_header r)"
  shows "\<exists>self' w'. search_loop e params qry max_retries rc self w
                       = (Inl (HTTPError None), self', w')
           \<and> length (gets w') = length (gets w) + nat (max_retries + 1 - rc)"
  using assms
proof (induction m \<equiv> "nat (max_retries + 1 - rc)" arbitrary: rc self w)
  case 0
  then have "max_retries < rc" by simp
  with 0 show ?case by (simp add: search_loop.simps [of e params qry max_retries rc self w])
next
  case (Suc m)
  note unfold = search_loop.simps [of e params qry max_retries rc self w]
  from Suc.hyps(2) have le: "rc \<le> max_retries" and m: "m = nat (max_retries + 1 - (rc + 1))"
    by simp_all
  from Suc.prems(4) Suc.hyps(2) obtain d r where
    r: "search_endpoint e (length (gets w)) params = (d, Responded r)"
       "status_code r = 429" "reset_header_ok e (reset_header r)"
    by (metis add.right_neutral zero_less_Suc)
  define w1 where "w1 = w\<lparr>gets := gets w @ [params], clock := clock w + d\<rparr>"
  define self1 where "self1 = self\<lparr>last_request_time := Some (clock w1)\<rparr>"
  have g: "http_get e params w = (Responded r, w1)"
    using r(1) by (simp add: http_get_def w1_def)
  have rest: "\<forall>i < nat (max_retries + 1 - (rc + 1)). \<exists>d r.
            search_endpoint e (length (gets w1) + i) params = (d, Responded r)
            \<and> status_code r = 429 \<and> reset_header_ok e (reset_header r)"
  proof (intro allI impI)
    fix i assume "i < nat (max_retries + 1 - (rc + 1))"
    with Suc.hyps(2) have "Suc i < nat (max_retries + 1 - rc)" by linarith
    with Suc.prems(4) have "\<exists>d r. search_endpoint e (length (gets w) + Suc i) params = (d, Responded r)
            \<and> status_code r = 429 \<and> reset_header_ok e (reset_header r)" by blast
    then show "\<exists>d r. search_endpoint e (length (gets w1) + i) params = (d, Responded r)
            \<and> status_code r = 429 \<and> reset_header_ok e (reset_header r)"
      by (simp add: w1_def)
  qed
  have rlw: "0 \<le> rate_limit_wait self1" using Suc.prems(3) by (simp add: self1_def)
  have rc1: "0 \<le> rc + 1" "rc + 1 \<le> max_retries + 1" using Suc.prems(1) le by simp_all
  show ?case
  proof (cases "max_retries < rc + 1")
    case True
    from Suc.hyps(1) [OF m rc1 rlw rest] obtain self' w' where
      "search_loop e params qry max_retries (rc + 1) self1 w1 = (Inl (HTTPError None), self', w')"
      "length (gets w') = length (gets w1) + nat (max_retries + 1 - (rc + 1))" by blast
    moreover have "search_loop e params qry max_retries rc self w
                     = search_loop e params qry max_retries (rc + 1) self1 w1"
      by (subst unfold) (use le g r(2) True in \<open>simp add: self1_def\<close>)
    ultimately show ?thesis using Suc.hyps(2) by (simp add: w1_def)
  next
    case False
    from wait_seconds_ok [OF r(3) rlw rc1(1)] obtain secs where
      secs: "wait_seconds e self1 (rc + 1) (reset_header r) (clock w1) = Inr secs" "0 \<le> secs"
      by blast
    from sleep_ok [OF secs(2)] obtain w2 where w2: "sleep secs w1 = Inr w2" by blast
    have gw2: "gets w2 = gets w1" using sleep_world [OF w2] by simp
    from Suc.hyps(1) [OF m rc1 rlw, of w2] rest gw2 obtain self' w' where
      "search_loop e params qry max_retries (rc + 1) self1 w2 = (Inl (HTTPError None), self', w')"
      "length (gets w') = length (gets w2) + nat (max_retries + 1 - (rc + 1))" by auto
    moreover have "search_loop e params qry max_retries rc self w
                     = search_loop e params qry max_retries (rc + 1) self1 w2"
      by (subst unfold) (use le g r(2) False secs(1) w2 in \<open>simp add: self1_def\<close>)
    ultimately show ?thesis using Suc.hyps(2) gw2 by (simp add: w1_def)
  qed
qed

subsection \<open>One retry, and the sleeps of a run without reset headers\<close>

lemma wait_seconds_same_offset:
  assumes "s \<noteq> []" "reset_epoch e s = Some r" "utc_offset e (of_int r) = utc_offset e now"
  shows "wait_seconds e self n (Some s) now
           = Inr (max (of_int r - now) (of_int (rate_limit_wait self)))"
  using assms by (simp add: wait_seconds_def local_time_def Let_def)

lemma retry_step:
  assumes le: "rc + 1 \<le> max_retries"
    and get: "http_get e params w = (Responded response, w1)"
    and limited: "status_code response = 429"
    and secs: "wait_seconds e (self\<lparr>last_request_time := Some (clock w1)\<rparr>) (rc + 1)
                 (reset_header response) (clock w1) = Inr secs"
    and nonneg: "0 \<le> secs"
  shows "search_loop e params qry max_retries rc self w
           = search_loop e params qry max_retries (rc + 1)
               (self\<lparr>last_request_time := Some (clock w1)\<rparr>)
               (w1\<lparr>sleeps := sleeps w1 @ [secs], clock := clock w1 + secs\<rparr>)"
  by (subst search_loop.simps) (use assms in \<open>simp add: sleep_def\<close>)

lemma headerless_sleeps:
  assumes run: "search_loop e params qry max_retries 0 self w = (res, self', w')"
    and none: "\<forall>i rq d r. search_endpoint e i rq = (d, Responded r) \<longrightarrow> reset_header r = None"
  shows "\<exists>k. 0 \<le> k \<and>
           sleeps w' = sleeps w @ map (\<lambda>n. of_int (rate_limit_wait self * n)) [1..k]"
proof -
  let ?f = "\<lambda>n :: int. (of_int (rate_limit_wait self * n) :: rat)"
  let ?I = "\<lambda>(rc :: int) (s :: twitter) v.
              0 \<le> rc \<and> rate_limit_wait s = rate_limit_wait self \<and>
              (\<exists>k. 0 \<le> k \<and> sleeps v = sleeps w @ map ?f [1..k]
                   \<and> (rc \<le> max_retries \<longrightarrow> k = rc))"
  let ?Q = "\<lambda>(res :: error + search_result) (s :: twitter) v.
              \<exists>k. 0 \<le> k \<and> sleeps v = sleeps w @ map ?f [1..k]"
  show ?thesis
  proof (rule search_loop_rule [OF run, where I = ?I and Q = ?Q], goal_cases)
    case 1
    show ?case by (auto intro!: exI [of _ 0])
  next
    case (2 rc s v response v1 secs v2)
    from 2(1,2) have v: "0 \<le> rc" "rate_limit_wait s = rate_limit_wait self"
      "sleeps v = sleeps w @ map ?f [1..rc]" by auto
    from http_get_world [OF 2(3)] none have h: "reset_header response = None" "sleeps v1 = sleeps v"
      by blast+
    from 2(6) h(1) v(2) have secs: "secs = ?f (rc + 1)"
      by (simp add: wait_seconds_def)
    from sleep_world [OF 2(7)] h(2) v(3) secs
    have "sleeps v2 = sleeps w @ map ?f [1..rc] @ [?f (rc + 1)]" by simp
    also have "map ?f [1..rc] @ [?f (rc + 1)] = map ?f [1..rc + 1]"
      using v(1) by (simp add: upto_rec2 [of 1 "rc + 1"])
    finally have "sleeps v2 = sleeps w @ map ?f [1..rc + 1]" .
    with v(1,2) show ?case by (auto intro!: exI [of _ "rc + 1"])
  next
    case (3 rc s v response v1)
    with http_get_world [OF 3(3)] show ?case by auto
  qed (auto dest!: http_get_world)
qed

subsection \<open>The response processing\<close>



lemma build_users_dict_None:
  "build_users_dict m us = Inr d \<Longrightarrow>
     d a = None \<longleftrightarrow> m a = None \<and> Some a \<notin> set (map user_id us)"
proof (induction us arbitrary: m)
  case Nil
  then show ?case by simp
next
  case (Cons u us)
  then show ?case by (cases "user_id u") (auto split: if_splits)
qed

lemma users_of_dict:
  "users_of p = Inr d \<Longrightarrow> build_users_dict Map.empty (included_users p) = Inr d"
  by (auto simp: users_of_def included_users_def split: field.splits)


lemma lookup_no_author:
  assumes "users_of p = Inr d" "no_author p tweet"
  shows "lookup_author d (author_id tweet) = None"
  using assms(2) build_users_dict_None [OF users_of_dict [OF assms(1)]]
  by (auto simp: lookup_author_def no_author_def split: option.splits)

lemma format_tweets_Inr:
  "format_tweets e now d ts = Inr ns \<longleftrightarrow>
     (\<forall>t \<in> set ts. metrics_field t \<noteq> Null) \<and> ns = map (format_record e now d) ts"
proof (induction ts arbitrary: ns)
  case Nil
  show ?case by auto
next
  case (Cons t ts)
  show ?case
  proof (cases "format_tweets e now d ts")
    case (Inl err)
    with Cons [of "map (format_record e now d) ts"] show ?thesis
      by (auto simp: format_tweet_def)
  next
    case (Inr fs)
    with Cons [of fs] show ?thesis
      by (auto simp: format_tweet_def)
  qed
qed

lemma raw_tweets_cases:
  "raw_tweets p = (case data_field p of Value ts \<Rightarrow> ts | _ \<Rightarrow> [])"
  by (simp add: raw_tweets_def data_def value_of_def get_default_def split: field.splits)

lemma process_response_map:
  assumes "process_response e now p = Inr ns"
  shows "\<exists>d. users_of p = Inr d \<and> ns = map (format_record e now d) (raw_tweets p)"
  using assms
  by (auto simp: process_response_def raw_tweets_cases format_tweets_Inr
           split: sum.splits field.splits)



lemma format_record_no_author:
  assumes "lookup_author d (author_id tweet) = None"
  shows "author (format_record e now d tweet) = ''Unknown''"
    "username (format_record e now d tweet) = ''@unknown''"
    "verified (format_record e now d tweet) = False"
    "url (format_record e now d tweet) = ''https://twitter.com/i/status/'' @ py_str (tweet_id tweet)"
  using assms by (simp_all add: format_record_def author_field_def Let_def)


subsection \<open>The sort\<close>

lemma sort_by_views_sorted: "sorted_wrt (\<lambda>a b. views b \<le> views a) (sort_by_views ts)"
proof -
  have "sorted (map views (sort_key views (rev ts)))" by (rule sorted_sort_key)
  then have "sorted_wrt (\<lambda>a b. views a \<le> views b) (sort_key views (rev ts))"
    by (simp add: sorted_map)
  then show ?thesis by (simp add: sort_by_views_def sorted_wrt_rev)
qed

lemma sort_by_views_stable:
  "filter (\<lambda>t. views t = v) (sort_by_views ts) = filter (\<lambda>t. views t = v) ts"
proof -
  have "filter (\<lambda>t. views t = v) (sort_by_views ts)
          = rev (filter (\<lambda>t. views t = v) (sort_key views (rev ts)))"
    by (simp add: sort_by_views_def rev_filter)
  also have "\<dots> = rev (filter (\<lambda>t. views t = v) (rev ts))"
    by (simp only: sort_key_stable)
  also have "\<dots> = filter (\<lambda>t. views t = v) ts"
    by (simp add: rev_filter)
  finally show ?thesis .
qed

lemma process_response_ids:
  "process_response e now p = Inr ns \<Longrightarrow> map ft_id ns = map tweet_id (get_default (data p) [])"
  by (auto simp: format_record_def Let_def raw_tweets_def dest!: process_response_map)

lemma handle_payload_sorted:
  assumes "handle_payload e now qry p = Inr sr"
  shows "\<exists>ns. (if data p = None \<or> data p = Some [] then ns = []
               else process_response e now p = Inr ns)
              \<and> tweets sr = sort_by_views ns
              \<and> map ft_id ns = map tweet_id (get_default (data p) [])"
proof (cases "data p = None \<or> data p = Some []")
  case True
  with assms show ?thesis
    by (auto simp: handle_payload_def sort_by_views_def get_default_def)
next
  case False
  with assms obtain ns where "process_response e now p = Inr ns" "tweets sr = sort_by_views ns"
    by (auto simp: handle_payload_def Let_def split: sum.splits)
  with False process_response_ids [of e now p ns] show ?thesis by auto
qed

subsection \<open>Runs against the concrete providers\<close>

lemma demo_run:
  "search_tweets (limited_env 0) ''Python'' 5 3 demo_self demo_world
     = (Inr \<lparr>tweets = [], totalResults = 0, query = ''Python''\<rparr>,
        demo_self\<lparr>last_request_time := Some (2001 / 2)\<rparr>,
        demo_world\<lparr>clock := 2001 / 2, gets := [search_params demo_self ''Python'' 5]\<rparr>)"
  by (simp add: search_tweets_def ensure_token_def demo_self_def demo_world_def rate_gate_def
        search_loop.simps http_get_def limited_env_def answer_def raises_for_status_def
        handle_payload_def data_def value_of_def empty_payload_def search_params_def)

lemma tweets_run:
  "search_tweets tweets_env ''Python'' 5 3 demo_self demo_world
     = (Inr \<lparr>tweets = [formatted_b, formatted_a, formatted_c], totalResults = 3,
              query = ''Python''\<rparr>,
        demo_self\<lparr>last_request_time := Some (2001 / 2)\<rparr>,
        demo_world\<lparr>clock := 2001 / 2, gets := [search_params demo_self ''Python'' 5]\<rparr>)"
  by (simp add: search_tweets_def ensure_token_def demo_self_def demo_world_def rate_gate_def
        search_loop.simps http_get_def tweets_env_def answer_def raises_for_status_def
        handle_payload_def data_def value_of_def tweets_payload_def search_params_def process_response_def
        included_users_def format_tweet_def format_record_def users_of_def public_metrics_def value_of_def lookup_author_def author_field_def metric_def
        get_default_def py_str_def format_timestamp_def sort_by_views_def
        tweet_a_def tweet_b_def tweet_c_def user_1_def
        formatted_a_def formatted_b_def formatted_c_def)

lemma init_fresh: "init (Some ''key'') (Some ''secret'') 30 = Inr fresh_self"
  by (simp add: init_def fresh_self_def)

lemma empty_query_run:
  "search_tweets (limited_env 0) [] 5 3 demo_self demo_world
     = (Inr \<lparr>tweets = [], totalResults = 0, query = []\<rparr>,
        demo_self\<lparr>last_request_time := Some (2001 / 2)\<rparr>,
        demo_world\<lparr>clock := 2001 / 2, gets := [search_params demo_self [] 5]\<rparr>)"
  by (simp add: search_tweets_def ensure_token_def demo_self_def demo_world_def rate_gate_def
        search_loop.simps http_get_def limited_env_def answer_def raises_for_status_def
        handle_payload_def data_def value_of_def empty_payload_def search_params_def)

lemma retry_run:
  "search_tweets (limited_env 2) ''Python'' 5 3 demo_self demo_world
     = (Inr \<lparr>tweets = [], totalResults = 0, query = ''Python''\<rparr>,
        demo_self\<lparr>last_request_time := Some (2183 / 2)\<rparr>,
        demo_world\<lparr>clock := 2183 / 2,
                     gets := replicate 3 (search_params demo_self ''Python'' 5),
                     sleeps := [30, 60]\<rparr>)"
  by (simp add: search_tweets_def ensure_token_def demo_self_def demo_world_def rate_gate_def
        search_loop.simps http_get_def limited_env_def answer_def raises_for_status_def
        handle_payload_def data_def value_of_def empty_payload_def search_params_def wait_seconds_def sleep_def
        numeral_3_eq_3)

lemma one_retry_run:
  "search_tweets (limited_env 1) ''Python'' 5 1 demo_self demo_world
     = (Inr \<lparr>tweets = [], totalResults = 0, query = ''Python''\<rparr>,
        demo_self\<lparr>last_request_time := Some 1031\<rparr>,
        demo_world\<lparr>clock := 1031,
                     gets := replicate 2 (search_params demo_self ''Python'' 5),
                     sleeps := [30]\<rparr>)"
  by (simp add: search_tweets_def ensure_token_def demo_self_def demo_world_def rate_gate_def
        search_loop.simps http_get_def limited_env_def answer_def raises_for_status_def
        handle_payload_def data_def value_of_def empty_payload_def search_params_def wait_seconds_def sleep_def
        numeral_2_eq_2)

lemma exhausted_run:
  "search_tweets (limited_env 2) ''Python'' 5 1 demo_self demo_world
     = (Inl (HTTPError None),
        demo_self\<lparr>last_request_time := Some 1031\<rparr>,
        demo_world\<lparr>clock := 1031,
                     gets := replicate 2 (search_params demo_self ''Python'' 5),
                     sleeps := [30]\<rparr>)"
  by (simp add: search_tweets_def ensure_token_def demo_self_def demo_world_def rate_gate_def
        search_loop.simps http_get_def limited_env_def answer_def raises_for_status_def
        handle_payload_def data_def value_of_def empty_payload_def search_params_def wait_seconds_def sleep_def
        numeral_2_eq_2)

lemma dst_run:
  "search_tweets dst_env ''Python'' 5 3 demo_self dst_world
     = (Inr \<lparr>tweets = [], totalResults = 0, query = ''Python''\<rparr>,
        demo_self\<lparr>last_request_time := Some (1793512730 + 1 / 2)\<rparr>,
        dst_world\<lparr>clock := 1793512730 + 1 / 2,
                    gets := replicate 2 (search_params demo_self ''Python'' 5),
                    sleeps := [30]\<rparr>)"
  by (simp add: search_tweets_def ensure_token_def demo_self_def dst_world_def rate_gate_def
        search_loop.simps http_get_def dst_env_def answer_def raises_for_status_def
        handle_payload_def data_def value_of_def empty_payload_def search_params_def wait_seconds_def sleep_def
        local_time_def numeral_2_eq_2)



lemma negative_run:
  "process_response tweets_env 0 negative_payload = Inr [formatted_neg]"
  by (simp add: process_response_def negative_payload_def included_users_def tweet_neg_def
        format_tweet_def format_record_def users_of_def public_metrics_def value_of_def lookup_author_def author_field_def metric_def get_default_def
        py_str_def format_timestamp_def formatted_neg_def)

lemma sparse_run:
  "process_response tweets_env 0 sparse_payload = Inr [formatted_sparse]"
  by (simp add: process_response_def sparse_payload_def included_users_def tweet_sparse_def
        user_1_def format_tweet_def format_record_def users_of_def public_metrics_def value_of_def lookup_author_def author_field_def metric_def
        get_default_def py_str_def format_timestamp_def formatted_sparse_def)

lemma tweets_normalised:
  "process_response tweets_env 0 tweets_payload = Inr [formatted_a, formatted_b, formatted_c]"
  by (simp add: process_response_def tweets_payload_def included_users_def
        tweet_a_def tweet_b_def tweet_c_def user_1_def
        format_tweet_def format_record_def users_of_def public_metrics_def value_of_def lookup_author_def author_field_def metric_def get_default_def
        py_str_def format_timestamp_def formatted_a_def formatted_b_def formatted_c_def)

section \<open>The claims\<close>

subsection \<open>C5: the result count sent upstream\<close>

text \<open>
  C5. Every search request sent by a call of \<open>search_tweets\<close> carries the
  \<open>max_results\<close> argument clamped to the interval from 10 to 100: a value below 10
  is sent as 10 (5 becomes 10), a value above 100 as 100 (500 becomes 100), and a value
  inside the interval unchanged.
\<close>

theorem max_results_clamped:
  assumes "search_tweets e qry max_results max_retries self w = (res, self', w')"
  shows "(\<forall>rq \<in> set (drop (length (gets w)) (gets w')).
            p_max_results rq = p_max_results (search_params self qry max_results))
         \<and> p_max_results (search_params self qry max_results)
             = (if max_results < 10 then 10 else if 100 < max_results then 100 else max_results)
         \<and> p_max_results (search_params self qry 5) = 10
         \<and> p_max_results (search_params self qry 500) = 100"
proof -
  have sent: "\<forall>rq \<in> set (drop (length (gets w)) (gets w')).
            p_max_results rq = p_max_results (search_params self qry max_results)"
  using assms
  proof (cases rule: search_tweets_cases)
    case (token_failed err self1 w1)
    with ensure_token_world [OF token_failed(1)] show ?thesis by simp
  next
    case (searched tok self1 w1 w2)
    from search_loop_frame [OF searched(3)] obtain k where
      "gets w' = gets w2 @ replicate k (search_params self1 qry max_results)" by blast
    with ensure_token_world [OF searched(1)] rate_gate_world [OF searched(2)]
    show ?thesis by (auto simp: search_params_def)
  qed
  then show ?thesis by (simp add: search_params_def)
qed



theorem max_results_clamped_witness:
  "search_tweets (limited_env 0) ''Python'' 5 3 demo_self demo_world
     = (Inr \<lparr>tweets = [], totalResults = 0, query = ''Python''\<rparr>,
        demo_self\<lparr>last_request_time := Some (2001 / 2)\<rparr>,
        demo_world\<lparr>clock := 2001 / 2, gets := [search_params demo_self ''Python'' 5]\<rparr>)
   \<and> map p_max_results [search_params demo_self ''Python'' 5] = [10]"
  using max_results_clamped [OF demo_run] demo_run
  by (simp add: demo_world_def)

subsection \<open>C4: the shape of a result\<close>

text \<open>
  C4. Every result returned by \<open>search_tweets\<close> has \<open>totalResults\<close> equal to the
  number of its tweets and echoes the query. In particular, when the last answer the
  call received is a successful one (status 200 to 299) whose \<open>data\<close> array is empty
  or absent, the call returns the result with no tweets, \<open>totalResults = 0\<close> and the
  query, and not an error.
\<close>

theorem result_counts_and_echoes:
  assumes run: "search_tweets e qry max_results max_retries self w = (res, self', w')"
  shows "(\<forall>sr. res = Inr sr \<longrightarrow> totalResults sr = length (tweets sr) \<and> query sr = qry)
       \<and> (\<forall>response p.
            length (gets w) < length (gets w') \<and> last_answer e w' = Some (Responded response)
            \<and> 200 \<le> status_code response \<and> status_code response < 300
            \<and> body response = Some p \<and> (data p = None \<or> data p = Some [])
            \<longrightarrow> res = Inr \<lparr>tweets = [], totalResults = 0, query = qry\<rparr>)"
proof (intro conjI allI impI)
  fix sr assume "res = Inr sr"
  with search_tweets_success [of e qry max_results max_retries self w sr self' w'] run
  obtain p where "handle_payload e (clock w') qry p = Inr sr" by blast
  then show "totalResults sr = length (tweets sr)" "query sr = qry"
    by (simp_all add: handle_payload_result)
next
  fix response p
  assume h: "length (gets w) < length (gets w') \<and> last_answer e w' = Some (Responded response)
            \<and> 200 \<le> status_code response \<and> status_code response < 300
            \<and> body response = Some p \<and> (data p = None \<or> data p = Some [])"
  with search_tweets_decided [OF run] have "decided_by e qry (clock w') (Responded response) res"
    by auto
  with h show "res = Inr \<lparr>tweets = [], totalResults = 0, query = qry\<rparr>"
    by (auto simp: decided_by_def raises_for_status_def handle_payload_def)
qed


theorem result_counts_and_echoes_witness:
  "search_tweets (limited_env 0) ''Python'' 5 3 demo_self demo_world
     = (Inr \<lparr>tweets = [], totalResults = 0, query = ''Python''\<rparr>,
        demo_self\<lparr>last_request_time := Some (2001 / 2)\<rparr>,
        demo_world\<lparr>clock := 2001 / 2, gets := [search_params demo_self ''Python'' 5]\<rparr>)
   \<and> last_answer (limited_env 0)
         (demo_world\<lparr>clock := 2001 / 2, gets := [search_params demo_self ''Python'' 5]\<rparr>)
       = Some (Responded \<lparr>status_code = 200, reset_header = None,
                            body = Some empty_payload\<rparr>)
   \<and> data empty_payload = Some []
   \<and> totalResults \<lparr>tweets = [], totalResults = 0, query = ''Python''\<rparr>
       = length (tweets \<lparr>tweets = [], totalResults = 0, query = ''Python''\<rparr>)"
  using result_counts_and_echoes [OF demo_run] demo_run
  by (simp add: last_answer_def limited_env_def answer_def empty_payload_def demo_world_def
        data_def value_of_def)

subsection \<open>C3: the order of the tweets\<close>

text \<open>
  C3. The tweets of every result returned by \<open>search_tweets\<close> are sorted by views in
  descending order: each tweet has at least the views of the one after it. The sort is
  stable: for every number of views, the tweets with that number appear in the result
  in the order in which the normalised payload of the deciding answer has them, which
  is the order of the payload.
\<close>

theorem tweets_sorted_by_views:
  assumes run: "search_tweets e qry max_results max_retries self w = (Inr sr, self', w')"
  shows "sorted_wrt (\<lambda>a b. views b \<le> views a) (tweets sr)
       \<and> (\<forall>i. i + 1 < length (tweets sr) \<longrightarrow> views (tweets sr ! (i + 1)) \<le> views (tweets sr ! i))
       \<and> (\<exists>response p ns.
            last_answer e w' = Some (Responded response) \<and> body response = Some p
            \<and> (if data p = None \<or> data p = Some [] then ns = []
                else process_response e (clock w') p = Inr ns)
            \<and> map ft_id ns = map tweet_id (get_default (data p) [])
            \<and> (\<forall>v. filter (\<lambda>t. views t = v) (tweets sr) = filter (\<lambda>t. views t = v) ns))"
proof -
  from search_tweets_success [OF run] obtain response p where
    la: "last_answer e w' = Some (Responded response)" "body response = Some p"
    and hp: "handle_payload e (clock w') qry p = Inr sr" by blast
  from handle_payload_sorted [OF hp] obtain ns where
    ns: "if data p = None \<or> data p = Some [] then ns = []
         else process_response e (clock w') p = Inr ns"
      "tweets sr = sort_by_views ns"
      "map ft_id ns = map tweet_id (get_default (data p) [])" by blast
  have sorted: "sorted_wrt (\<lambda>a b. views b \<le> views a) (tweets sr)"
    by (simp add: ns(2) sort_by_views_sorted)
  have adjacent: "\<forall>i. i + 1 < length (tweets sr)
                    \<longrightarrow> views (tweets sr ! (i + 1)) \<le> views (tweets sr ! i)"
    using sorted by (auto simp: sorted_wrt_iff_nth_less)
  have stable: "\<forall>v. filter (\<lambda>t. views t = v) (tweets sr) = filter (\<lambda>t. views t = v) ns"
    by (simp add: ns(2) sort_by_views_stable)
  from la ns(1,3) stable have "\<exists>response p ns.
            last_answer e w' = Some (Responded response) \<and> body response = Some p
            \<and> (if data p = None \<or> data p = Some [] then ns = []
                else process_response e (clock w') p = Inr ns)
            \<and> map ft_id ns = map tweet_id (get_default (data p) [])
            \<and> (\<forall>v. filter (\<lambda>t. views t = v) (tweets sr) = filter (\<lambda>t. views t = v) ns)"
    by blast
  with sorted adjacent show ?thesis by blast
qed

theorem tweets_sorted_by_views_witness:
  "search_tweets tweets_env ''Python'' 5 3 demo_self demo_world
     = (Inr \<lparr>tweets = [formatted_b, formatted_a, formatted_c], totalResults = 3,
              query = ''Python''\<rparr>,
        demo_self\<lparr>last_request_time := Some (2001 / 2)\<rparr>,
        demo_world\<lparr>clock := 2001 / 2, gets := [search_params demo_self ''Python'' 5]\<rparr>)
   \<and> map views [formatted_b, formatted_a, formatted_c] = [200, 50, 50]
   \<and> sorted_wrt (\<lambda>a b. views b \<le> views a) [formatted_b, formatted_a, formatted_c]
   \<and> filter (\<lambda>t. views t = 50) [formatted_b, formatted_a, formatted_c]
       = [formatted_a, formatted_c]"
  using tweets_sorted_by_views [OF tweets_run] tweets_run
  by (simp add: formatted_a_def formatted_b_def formatted_c_def)

subsection \<open>C9: the cached token\<close>

text \<open>
  C9, as stated, fails: \<open>get_bearer_token\<close> has no test of the cached token. Called a
  second time, after it has returned the token \<open>A\<close>, it sends a second token request
  and overwrites the token with \<open>B\<close>.
\<close>

theorem token_refetched_counterexample:
  "get_bearer_token rotating_env fresh_self demo_world
     = (Inr (Some ''A''), fresh_self\<lparr>bearer_token := Some ''A''\<rparr>,
        demo_world\<lparr>token_requests := 1, clock := 4001 / 4\<rparr>)
   \<and> get_bearer_token rotating_env (fresh_self\<lparr>bearer_token := Some ''A''\<rparr>)
         (demo_world\<lparr>token_requests := 1, clock := 4001 / 4\<rparr>)
     = (Inr (Some ''B''), fresh_self\<lparr>bearer_token := Some ''B''\<rparr>,
        demo_world\<lparr>token_requests := 2, clock := 2001 / 2\<rparr>)"
  by (simp add: get_bearer_token_def rotating_env_def token_answer_def fresh_self_def
        demo_world_def raises_for_status_def)

text \<open>
  C9, amended. The cache is consulted by the callers of \<open>get_bearer_token\<close>: once the
  object holds a non-empty token, the token step of \<open>search_tweets\<close> is a no-op that
  returns the cached token, and a whole call of \<open>search_tweets\<close>, its retries
  included, sends no token request, leaves the token unchanged and sends it with every
  search request. \<open>get_bearer_token\<close> itself sends one token request at every call
  and stores the token it returns.
\<close>

theorem cached_token_not_refetched:
  assumes tok: "bearer_token self = Some t" "t \<noteq> []"
  shows "ensure_token e self w = (Inr (Some t), self, w)
       \<and> (\<forall>res self' w'. search_tweets e qry max_results max_retries self w = (res, self', w')
            \<longrightarrow> token_requests w' = token_requests w \<and> bearer_token self' = Some t
                \<and> (\<forall>rq \<in> set (drop (length (gets w)) (gets w')).
                      req_authorization rq = ''Bearer '' @ t))
       \<and> (\<forall>self0 w0 tok0 self1 w1. get_bearer_token e self0 w0 = (Inr tok0, self1, w1)
            \<longrightarrow> bearer_token self1 = tok0 \<and> token_requests w1 = token_requests w0 + 1)"
proof -
  have et: "ensure_token e self w = (Inr (Some t), self, w)"
    using tok by (rule ensure_token_cached)
  have search: "token_requests w' = token_requests w \<and> bearer_token self' = Some t
                \<and> (\<forall>rq \<in> set (drop (length (gets w)) (gets w')).
                      req_authorization rq = ''Bearer '' @ t)"
    if run: "search_tweets e qry max_results max_retries self w = (res, self', w')"
    for res self' w'
    using run
  proof (cases rule: search_tweets_cases)
    case (token_failed err self1 w1)
    with et show ?thesis by simp
  next
    case (searched tok' self1 w1 w2)
    with et have eq: "self1 = self" "w1 = w" by simp_all
    from search_loop_frame [OF searched(3)] obtain k where
      "bearer_token self' = bearer_token self1" "token_requests w' = token_requests w2"
      "gets w' = gets w2 @ replicate k (search_params self1 qry max_results)" by blast
    with eq tok rate_gate_world [OF searched(2)] show ?thesis
      by (auto simp: search_params_def py_str_def)
  qed
  have fetch: "bearer_token self1 = tok0 \<and> token_requests w1 = token_requests w0 + 1"
    if "get_bearer_token e self0 w0 = (Inr tok0, self1, w1)" for self0 w0 tok0 self1 w1
    using that get_bearer_token_caches [OF that] get_bearer_token_world [OF that] by simp
  from et search fetch show ?thesis by blast
qed

theorem cached_token_not_refetched_witness:
  "bearer_token demo_self = Some ''tok'' \<and> ''tok'' \<noteq> []
   \<and> search_tweets (limited_env 2) ''Python'' 5 3 demo_self demo_world
       = (Inr \<lparr>tweets = [], totalResults = 0, query = ''Python''\<rparr>,
          demo_self\<lparr>last_request_time := Some (2183 / 2)\<rparr>,
          demo_world\<lparr>clock := 2183 / 2,
                       gets := replicate 3 (search_params demo_self ''Python'' 5),
                       sleeps := [30, 60]\<rparr>)
   \<and> token_requests (demo_world\<lparr>clock := 2183 / 2,
                       gets := replicate 3 (search_params demo_self ''Python'' 5),
                       sleeps := [30, 60]\<rparr>) = token_requests demo_world
   \<and> bearer_token (demo_self\<lparr>last_request_time := Some (2183 / 2)\<rparr>) = Some ''tok''
   \<and> ensure_token (limited_env 2) demo_self demo_world = (Inr (Some ''tok''), demo_self, demo_world)"
proof -
  have tok: "bearer_token demo_self = Some ''tok''" "''tok'' \<noteq> []"
    by (simp_all add: demo_self_def)
  from cached_token_not_refetched [OF tok, of "limited_env 2" demo_world "''Python''" 5 3]
    retry_run tok
  show ?thesis by simp
qed

subsection \<open>C6: the empty query\<close>

text \<open>
  C6, as stated, fails: \<open>search_tweets\<close> has no test of the query. Called with the
  empty query it sends the search request and, against a provider that answers with
  status 200 and no tweets, returns the empty result.
\<close>

theorem empty_query_counterexample:
  "search_tweets (limited_env 0) [] 5 3 demo_self demo_world
     = (Inr \<lparr>tweets = [], totalResults = 0, query = []\<rparr>,
        demo_self\<lparr>last_request_time := Some (2001 / 2)\<rparr>,
        demo_world\<lparr>clock := 2001 / 2, gets := [search_params demo_self [] 5]\<rparr>)
   \<and> p_query (search_params demo_self [] 5) = []"
  using empty_query_run by (simp add: search_params_def)

text \<open>
  C6, amended. \<open>search_tweets\<close> treats the empty query as any other: when the token
  step succeeds and \<open>max_retries\<close> is not negative, the call sends a search request
  that carries the empty query, and its outcome is the one the last answer of the
  provider decides.
\<close>

theorem empty_query_is_sent:
  assumes tok: "ensure_token e self w = (Inr tok, self1, w1)"
    and retries: "0 \<le> max_retries"
    and run: "search_tweets e [] max_results max_retries self w = (res, self', w')"
  shows "length (gets w) < length (gets w')
       \<and> gets w' ! length (gets w) = search_params self1 [] max_results
       \<and> p_query (gets w' ! length (gets w)) = []
       \<and> (\<exists>out. last_answer e w' = Some out \<and> decided_by e [] (clock w') out res)"
  using run
proof (cases rule: search_tweets_cases)
  case (token_failed err self2 w2)
  with tok show ?thesis by simp
next
  case (searched tok' self2 w2 w3)
  with tok have eq: "self2 = self1" "w2 = w1" by simp_all
  have g: "gets w3 = gets w"
    using ensure_token_world [OF tok] rate_gate_world [OF searched(2)] eq by simp
  from search_loop_sends [OF searched(3) retries] g
  have sent: "length (gets w) < length (gets w')" by simp
  from search_loop_frame [OF searched(3)] obtain k where
    k: "gets w' = gets w3 @ replicate k (search_params self2 [] max_results)" by blast
  with sent g have "0 < k" by auto
  with k g eq have first: "gets w' ! length (gets w) = search_params self1 [] max_results"
    by (simp add: nth_append)
  from search_tweets_decided [OF run sent] sent first show ?thesis
    by (simp add: search_params_def)
qed

theorem empty_query_is_sent_witness:
  "ensure_token (limited_env 0) demo_self demo_world = (Inr (Some ''tok''), demo_self, demo_world)
   \<and> (0 :: int) \<le> 3
   \<and> search_tweets (limited_env 0) [] 5 3 demo_self demo_world
       = (Inr \<lparr>tweets = [], totalResults = 0, query = []\<rparr>,
          demo_self\<lparr>last_request_time := Some (2001 / 2)\<rparr>,
          demo_world\<lparr>clock := 2001 / 2, gets := [search_params demo_self [] 5]\<rparr>)
   \<and> length (gets demo_world)
       < length (gets (demo_world\<lparr>clock := 2001 / 2, gets := [search_params demo_self [] 5]\<rparr>))
   \<and> p_query (gets (demo_world\<lparr>clock := 2001 / 2, gets := [search_params demo_self [] 5]\<rparr>)
               ! length (gets demo_world)) = []"
proof -
  have tok: "ensure_token (limited_env 0) demo_self demo_world
               = (Inr (Some ''tok''), demo_self, demo_world)"
    by (simp add: ensure_token_def demo_self_def)
  from empty_query_is_sent [OF tok _ empty_query_run] tok empty_query_run
  show ?thesis by (simp add: search_params_def demo_world_def)
qed

subsection \<open>C2: the retry budget\<close>

text \<open>
  C2, as stated, fails: \<open>max_retries\<close> counts the retries, not the attempts. With
  \<open>max_retries = 1\<close> and a provider whose first answer is a 429, the call sleeps,
  sends a second request after that answer and, the second answer being a 200, returns
  a result.
\<close>

theorem retry_after_429_counterexample:
  "search_endpoint (limited_env 1) 0 (search_params demo_self ''Python'' 5)
     = (1 / 2, Responded \<lparr>status_code = 429, reset_header = None, body = None\<rparr>)
   \<and> search_tweets (limited_env 1) ''Python'' 5 1 demo_self demo_world
     = (Inr \<lparr>tweets = [], totalResults = 0, query = ''Python''\<rparr>,
        demo_self\<lparr>last_request_time := Some 1031\<rparr>,
        demo_world\<lparr>clock := 1031,
                     gets := replicate 2 (search_params demo_self ''Python'' 5),
                     sleeps := [30]\<rparr>)"
  using one_retry_run by (simp add: limited_env_def answer_def)

text \<open>
  C2, amended. For \<open>max_retries\<close> not negative: when the token step succeeds and the
  provider answers the first attempt and each of the \<open>max_retries\<close> retries, that is
  \<open>max_retries + 1\<close> consecutive requests, with status 429 (the fallback wait not
  negative and every reset header absent, empty or convertible, so that each wait can
  be slept), the call fails with the \<open>HTTPError\<close> of line 218, and it has sent
  exactly \<open>max_retries + 1\<close> search requests: none after the last of these answers.
\<close>

theorem rate_limit_exceeded:
  assumes tok: "ensure_token e self w = (Inr tok, self1, w1)"
    and retries: "0 \<le> max_retries"
    and wait: "0 \<le> rate_limit_wait self"
    and limited: "\<forall>i \<le> nat max_retries. \<exists>d r.
            search_endpoint e (length (gets w) + i) (search_params self1 qry max_results)
              = (d, Responded r)
            \<and> status_code r = 429 \<and> reset_header_ok e (reset_header r)"
    and run: "search_tweets e qry max_results max_retries self w = (res, self', w')"
  shows "res = Inl (HTTPError None) \<and> length (gets w') = length (gets w) + nat max_retries + 1"
  using run
proof (cases rule: search_tweets_cases)
  case (token_failed err self2 w2)
  with tok show ?thesis by simp
next
  case (searched tok' self2 w2 w3)
  with tok have eq: "self2 = self1" "w2 = w1" by simp_all
  have g: "gets w3 = gets w" and rlw: "0 \<le> rate_limit_wait self1"
    using ensure_token_world [OF tok] rate_gate_world [OF searched(2)] eq wait by simp_all
  have "\<forall>i < nat (max_retries + 1 - 0). \<exists>d r.
            search_endpoint e (length (gets w3) + i) (search_params self1 qry max_results)
              = (d, Responded r)
            \<and> status_code r = 429 \<and> reset_header_ok e (reset_header r)"
    using limited retries g by (auto simp: less_Suc_eq_le nat_add_distrib)
  from search_loop_exhausts [OF _ _ rlw this, of qry] retries searched(3) eq g
  show ?thesis by (auto simp: nat_add_distrib)
qed

theorem rate_limit_exceeded_witness:
  "ensure_token (limited_env 2) demo_self demo_world = (Inr (Some ''tok''), demo_self, demo_world)
   \<and> (0 :: int) \<le> 1 \<and> 0 \<le> rate_limit_wait demo_self
   \<and> search_endpoint (limited_env 2) 0 (search_params demo_self ''Python'' 5)
       = (1 / 2, Responded \<lparr>status_code = 429, reset_header = None, body = None\<rparr>)
   \<and> search_endpoint (limited_env 2) 1 (search_params demo_self ''Python'' 5)
       = (1 / 2, Responded \<lparr>status_code = 429, reset_header = None, body = None\<rparr>)
   \<and> search_tweets (limited_env 2) ''Python'' 5 1 demo_self demo_world
       = (Inl (HTTPError None),
          demo_self\<lparr>last_request_time := Some 1031\<rparr>,
          demo_world\<lparr>clock := 1031,
                       gets := replicate 2 (search_params demo_self ''Python'' 5),
                       sleeps := [30]\<rparr>)
   \<and> length (gets (demo_world\<lparr>clock := 1031,
                       gets := replicate 2 (search_params demo_self ''Python'' 5),
                       sleeps := [30]\<rparr>)) = length (gets demo_world) + nat 1 + 1"
proof -
  have tok: "ensure_token (limited_env 2) demo_self demo_world
               = (Inr (Some ''tok''), demo_self, demo_world)"
    by (simp add: ensure_token_def demo_self_def)
  have wait: "0 \<le> rate_limit_wait demo_self"
    by (simp add: demo_self_def)
  have answers: "search_endpoint (limited_env 2) i (search_params demo_self ''Python'' 5)
       = (1 / 2, Responded \<lparr>status_code = 429, reset_header = None, body = None\<rparr>)"
    if "i \<le> 1" for i
    using that by (simp add: limited_env_def answer_def)
  have limited: "\<forall>i \<le> nat 1. \<exists>d r.
            search_endpoint (limited_env 2) (length (gets demo_world) + i)
              (search_params demo_self ''Python'' 5) = (d, Responded r)
            \<and> status_code r = 429 \<and> reset_header_ok (limited_env 2) (reset_header r)"
  proof (intro allI impI)
    fix i :: nat assume "i \<le> nat 1"
    then have "i \<le> 1" by simp
    from answers [OF this] show "\<exists>d r.
            search_endpoint (limited_env 2) (length (gets demo_world) + i)
              (search_params demo_self ''Python'' 5) = (d, Responded r)
            \<and> status_code r = 429 \<and> reset_header_ok (limited_env 2) (reset_header r)"
      by (intro exI [of _ "1 / 2"]
            exI [of _ "\<lparr>status_code = 429, reset_header = None, body = None\<rparr>"])
         (simp add: demo_world_def reset_header_ok_def)
  qed
  from rate_limit_exceeded [OF tok _ wait limited exhausted_run] tok wait
    answers [of 0] answers [of 1] exhausted_run
  show ?thesis by simp
qed

subsection \<open>C1: the wait before a retry\<close>

text \<open>
  C1 says that after a 429 answer with a reset header of epoch value \<open>r\<close> the loop
  waits \<open>max (r - now) rate_limit_wait\<close> seconds. Lines 164--165 compute \<open>r - now\<close>
  as the difference of two naive local datetimes, which is \<open>r - now\<close> only when the
  UTC offset is the same at both instants. In New York on 1 November 2026, with
  \<open>now = 1793512700\<close> and \<open>r = 1793512900\<close>, the clocks go back one hour in
  between: \<open>r - now\<close> is 200 seconds, the difference of the calendar readings is
  \<open>-3400\<close> seconds, and with \<open>rate_limit_wait = 30\<close> the code sleeps 30 seconds,
  not 200, and sends the retry 170 seconds before the reset.
\<close>

theorem reset_wait_across_offset_change:
  "http_get dst_env (search_params demo_self ''Python'' 5) dst_world
     = (Responded \<lparr>status_code = 429, reset_header = Some ''1793512900'', body = None\<rparr>,
        dst_world\<lparr>gets := [search_params demo_self ''Python'' 5], clock := 1793512700\<rparr>)
   \<and> reset_epoch dst_env ''1793512900'' = Some 1793512900
   \<and> rate_limit_wait demo_self = 30
   \<and> max (of_int 1793512900 - 1793512700) (of_int (rate_limit_wait demo_self)) = (200 :: rat)
   \<and> local_time dst_env (of_int 1793512900) - local_time dst_env 1793512700 = - 3400
   \<and> wait_seconds dst_env demo_self 1 (Some ''1793512900'') 1793512700 = Inr 30
   \<and> search_tweets dst_env ''Python'' 5 3 demo_self dst_world
     = (Inr \<lparr>tweets = [], totalResults = 0, query = ''Python''\<rparr>,
        demo_self\<lparr>last_request_time := Some (1793512730 + 1 / 2)\<rparr>,
        dst_world\<lparr>clock := 1793512730 + 1 / 2,
                    gets := replicate 2 (search_params demo_self ''Python'' 5),
                    sleeps := [30]\<rparr>)"
  using dst_run
  by (simp add: http_get_def dst_env_def answer_def dst_world_def demo_self_def
        wait_seconds_def local_time_def)

subsection \<open>C7: missing authors and missing counts\<close>




subsection \<open>C8: the sign of the views\<close>

text \<open>
  C8, as stated, fails: the views are the \<open>impression_count\<close> of the provider as it
  is, and a negative count gives negative views.
\<close>

theorem negative_views_counterexample:
  "process_response tweets_env 0 negative_payload = Inr [formatted_neg]
   \<and> views formatted_neg = - 5 \<and> views formatted_neg < 0"
  using negative_run by (simp add: formatted_neg_def)

text \<open>
  C8, amended. Every record the processing produces has as views the
  \<open>impression_count\<close> of its tweet, and 0 when the count is missing. Hence the views
  of all records are non-negative whenever no tweet of the payload carries a negative
  \<open>impression_count\<close>.
\<close>

theorem views_follow_impressions:
  assumes "process_response e now p = Inr ns"
  shows "length ns = length (raw_tweets p)
       \<and> (\<forall>i < length ns.
            views (ns ! i)
              = (case public_metrics (raw_tweets p ! i) of
                   None \<Rightarrow> 0
                 | Some m \<Rightarrow> (case impression_count m of None \<Rightarrow> 0 | Some c \<Rightarrow> c)))
       \<and> ((\<forall>t \<in> set (raw_tweets p). \<forall>m c.
              public_metrics t = Some m \<and> impression_count m = Some c \<longrightarrow> 0 \<le> c)
           \<longrightarrow> (\<forall>f \<in> set ns. 0 \<le> views f))"
proof -
  from process_response_map [OF assms] obtain d where
    ns: "ns = map (format_record e now d) (raw_tweets p)" by blast
  have v: "views (format_record e now d t)
             = (case public_metrics t of
                   None \<Rightarrow> 0
                 | Some m \<Rightarrow> (case impression_count m of None \<Rightarrow> 0 | Some c \<Rightarrow> c))" for t
    by (simp add: format_record_def metric_def get_default_def Let_def split: option.splits)
  show ?thesis
    by (auto simp: ns v split: option.splits)
qed

theorem views_follow_impressions_witness:
  "process_response tweets_env 0 tweets_payload = Inr [formatted_a, formatted_b, formatted_c]
   \<and> map (\<lambda>t. map_option impression_count (public_metrics t)) (raw_tweets tweets_payload)
       = [Some (Some 50), Some (Some 200), Some (Some 50)]
   \<and> map views [formatted_a, formatted_b, formatted_c] = [50, 200, 50]
   \<and> list_all (\<lambda>f. 0 \<le> views f) [formatted_a, formatted_b, formatted_c]"
proof -
  have raws: "raw_tweets tweets_payload = [tweet_a, tweet_b, tweet_c]"
    by (simp add: raw_tweets_cases tweets_payload_def)
  have counts: "map (\<lambda>t. map_option impression_count (public_metrics t)) (raw_tweets tweets_payload)
       = [Some (Some 50), Some (Some 200), Some (Some 50)]"
    by (simp add: raws tweet_a_def tweet_b_def tweet_c_def public_metrics_def value_of_def)
  have "\<forall>t \<in> set (raw_tweets tweets_payload). \<forall>m c.
              public_metrics t = Some m \<and> impression_count m = Some c \<longrightarrow> 0 \<le> c"
    by (auto simp: raws tweet_a_def tweet_b_def tweet_c_def public_metrics_def value_of_def)
  with views_follow_impressions [OF tweets_normalised] tweets_normalised counts
  show ?thesis by (simp add: formatted_a_def formatted_b_def formatted_c_def)
qed

subsection \<open>C10: the URL of a tweet without author record\<close>

text \<open>
  C10. For every tweet whose \<open>author_id\<close> has no matching user record, the URL of the
  record is \<open>https://twitter.com/i/status/\<close> followed by the id of the tweet (by
  \<open>None\<close> when the tweet has no id): the handle segment falls back to \<open>i\<close>, while
  the username of the record is \<open>@unknown\<close>. So the URL is not the one built from the
  record's own handle.
\<close>

theorem unknown_author_url:
  assumes "process_response e now p = Inr ns"
    and "i < length ns"
    and "no_author p (raw_tweets p ! i)"
  shows "url (ns ! i) = ''https://twitter.com/i/status/'' @ py_str (tweet_id (raw_tweets p ! i))
       \<and> username (ns ! i) = ''@unknown''
       \<and> url (ns ! i) \<noteq> ''https://twitter.com/'' @ drop 1 (username (ns ! i)) @ ''/status/''
                            @ py_str (tweet_id (raw_tweets p ! i))"
proof -
  from process_response_map [OF assms(1)] obtain d where
    d: "users_of p = Inr d"
       "ns = map (format_record e now d) (raw_tweets p)" by blast
  from lookup_no_author [OF d(1) assms(3)] assms(2) d(2)
  show ?thesis by (simp add: format_record_no_author)
qed

theorem unknown_author_url_witness:
  "process_response tweets_env 0 sparse_payload = Inr [formatted_sparse]
   \<and> (0 :: nat) < length [formatted_sparse]
   \<and> no_author sparse_payload (raw_tweets sparse_payload ! 0)
   \<and> tweet_id (raw_tweets sparse_payload ! 0) = Some ''5''
   \<and> url formatted_sparse = ''https://twitter.com/i/status/5''
   \<and> username formatted_sparse = ''@unknown''"
proof -
  have raws: "raw_tweets sparse_payload = [tweet_sparse]"
    by (simp add: raw_tweets_cases sparse_payload_def)
  have "no_author sparse_payload tweet_sparse"
    by (simp add: no_author_def sparse_payload_def included_users_def user_1_def
          tweet_sparse_def)
  then have unknown: "no_author sparse_payload (raw_tweets sparse_payload ! 0)"
    by (simp only: raws nth_Cons_0)
  have len: "0 < length [formatted_sparse]" by simp
  from unknown_author_url [OF sparse_run len unknown] sparse_run unknown raws
  show ?thesis by (simp add: tweet_sparse_def py_str_def)
qed

end
